theory Spec2Isabelle
  imports Complex_Main "HOL-Library.Word" "HOL-Library.Signed_Division"
begin

section \<open>The Python binding of the Ranger robot (python/ugv_sdk/ranger_robot.cpp)\<close>

text \<open>
  The source file is a pybind11 module. It binds three aggregate state structs
  (\<open>RangerCoreState\<close>, \<open>RangerActuatorState\<close>, \<open>RangerCommonSensorState\<close>) and the class
  \<open>RangerRobot\<close>. The structs, the message types inside them and \<open>RangerRobot\<close> itself are
  declared in headers that are not part of the file; the message types are therefore type
  parameters here.
\<close>

subsection \<open>Values crossing the language boundary\<close>

text \<open>
  A C++ \<open>long long\<close> is a signed 64-bit integer. The tick count of
  \<open>std::chrono::steady_clock\<close> is a signed 64-bit count of nanoseconds (libstdc++, libc++
  and the MSVC library agree on this), and \<open>std::chrono::milliseconds\<close> is a signed 64-bit
  count of milliseconds.
\<close>

type_synonym int64 = "64 word"

text \<open>The exceptions of the binding and the error conditions of the core, as values.\<close>

datatype py_error =
    TypeError           \<comment> \<open>pybind11: an argument does not convert to the parameter type\<close>
  | RuntimeError string \<comment> \<open>\<open>throw std::runtime_error(msg)\<close>\<close>
  | CastError           \<comment> \<open>\<open>py::cast_error\<close> from \<open>l[i].cast<T>()\<close>\<close>
  | IndexError          \<comment> \<open>\<open>l[i]\<close> past the end of a Python list\<close>
  | InvalidArgument     \<comment> \<open>the invalid-argument condition of the command dispatcher\<close>
  | CommandRejected     \<comment> \<open>a command refused because commanded mode is not enabled\<close>

text \<open>
  A Python \<open>int\<close> is unbounded. pybind11 converts it to a \<open>long long\<close> parameter only when
  it fits; otherwise the call fails with a \<open>TypeError\<close> before the bound lambda runs.
\<close>

definition cast_long_long :: "int \<Rightarrow> int64 option" where
  "cast_long_long n =
     (if - (2 ^ 63) \<le> n \<and> n < 2 ^ 63 then Some (word_of_int n) else None)"

text \<open>
  The Python objects that can stand in a list handed to the actuator setters: instances of
  the two bound actuator message classes, and objects of other types.
\<close>

datatype ('hs, 'ls) py_object =
    PyActuatorHS 'hs
  | PyActuatorLS 'ls
  | PyNone
  | PyInt int
  | PyStr string

text \<open>\<open>obj.cast<ActuatorHSStateMessage>()\<close> and \<open>obj.cast<ActuatorLSStateMessage>()\<close>:
  \<open>None\<close> stands for the thrown \<open>py::cast_error\<close>.\<close>

fun cast_ActuatorHSStateMessage :: "('hs, 'ls) py_object \<Rightarrow> 'hs option" where
  "cast_ActuatorHSStateMessage (PyActuatorHS m) = Some m"
| "cast_ActuatorHSStateMessage _ = None"

fun cast_ActuatorLSStateMessage :: "('hs, 'ls) py_object \<Rightarrow> 'ls option" where
  "cast_ActuatorLSStateMessage (PyActuatorLS m) = Some m"
| "cast_ActuatorLSStateMessage _ = None"

subsection \<open>Time stamps\<close>

text \<open>
  \<open>std::chrono::steady_clock::time_point(std::chrono::milliseconds(ms))\<close>: the constructor
  takes the clock's own duration, so the millisecond count is converted to nanoseconds by a
  multiplication with 1000000 on the signed 64-bit count. The C++ standard leaves an
  overflow of that multiplication undefined; the model takes the two's complement result
  that the compiled multiplication produces.
\<close>

definition time_point_of_milliseconds :: "int64 \<Rightarrow> int64" where
  "time_point_of_milliseconds ms = ms * 1000000"

text \<open>
  \<open>std::chrono::duration_cast<std::chrono::milliseconds>(t.time_since_epoch())\<close>: a signed
  division of the nanosecond count by 1000000, which in C++ truncates towards zero.
\<close>

definition duration_cast_milliseconds :: "int64 \<Rightarrow> int64" where
  "duration_cast_milliseconds t = word_of_int (sint t sdiv 1000000)"

subsection \<open>The three aggregate records\<close>

text \<open>
  The structs are declared in a header that is not part of the file. The binding assigns a
  \<open>std::chrono::steady_clock::time_point\<close> to each \<open>time_stamp\<close> field, so the field is
  the tick count of that clock. The two actuator arrays are C arrays (the getters iterate
  from \<open>std::begin\<close> to \<open>std::end\<close>); they are lists here, and \<open>RangerActuatorState_wf\<close>
  below states their declared length. Each struct names its stamp \<open>time_stamp\<close>; the
  three record fields carry the struct's name as a prefix to keep them apart.
\<close>

record ('sys, 'mot, 'lgt, 'mm, 'rc, 'odo) RangerCoreState =
  core_time_stamp :: int64
  system_state :: 'sys
  motion_state :: 'mot
  light_state :: 'lgt
  motion_mode_state :: 'mm
  rc_state :: 'rc
  odometry :: 'odo

record ('ma, 'ms, 'hs, 'ls) RangerActuatorState =
  actuator_time_stamp :: int64
  motor_angles :: 'ma
  motor_speeds :: 'ms
  actuator_hs_state :: "'hs list"
  actuator_ls_state :: "'ls list"

record 'bms RangerCommonSensorState =
  sensor_time_stamp :: int64
  bms_basic_state :: 'bms

text \<open>
  Modelled from the spec: the declared length of the arrays \<open>actuator_hs_state\<close> and
  \<open>actuator_ls_state\<close> of \<open>RangerActuatorState\<close>. The header that declares the struct
  (\<open>ugv_sdk/mobile_robot/ranger_robot.hpp\<close> and what it includes) is missing; the spec says
  that the aggregate holds a "fixed-size array of 4 each" and that "actuator arrays always
  have exactly 4 elements, indexed by wheel position 0-3".
\<close>

definition actuator_slots :: nat where
  "actuator_slots = 4"

definition RangerActuatorState_wf :: "('ma, 'ms, 'hs, 'ls) RangerActuatorState \<Rightarrow> bool" where
  "RangerActuatorState_wf s \<longleftrightarrow>
     length (actuator_hs_state s) = actuator_slots \<and>
     length (actuator_ls_state s) = actuator_slots"

subsection \<open>The property \<open>time_stamp\<close>\<close>

text \<open>
  The getter returns \<open>duration.count()\<close>, a signed 64-bit value that Python receives as an
  \<open>int\<close>. The setter returns the exception raised, if any, and the record as the call
  leaves it.
\<close>

definition core_time_stamp_get ::
  "('sys, 'mot, 'lgt, 'mm, 'rc, 'odo) RangerCoreState \<Rightarrow> int" where
  "core_time_stamp_get s = sint (duration_cast_milliseconds (core_time_stamp s))"

definition core_time_stamp_set ::
  "('sys, 'mot, 'lgt, 'mm, 'rc, 'odo) RangerCoreState \<Rightarrow> int \<Rightarrow>
   py_error option \<times> ('sys, 'mot, 'lgt, 'mm, 'rc, 'odo) RangerCoreState" where
  "core_time_stamp_set s ms =
     (case cast_long_long ms of
        None \<Rightarrow> (Some TypeError, s)
      | Some w \<Rightarrow> (None, s\<lparr>core_time_stamp := time_point_of_milliseconds w\<rparr>))"

definition actuator_time_stamp_get ::
  "('ma, 'ms, 'hs, 'ls) RangerActuatorState \<Rightarrow> int" where
  "actuator_time_stamp_get s = sint (duration_cast_milliseconds (actuator_time_stamp s))"

definition actuator_time_stamp_set ::
  "('ma, 'ms, 'hs, 'ls) RangerActuatorState \<Rightarrow> int \<Rightarrow>
   py_error option \<times> ('ma, 'ms, 'hs, 'ls) RangerActuatorState" where
  "actuator_time_stamp_set s ms =
     (case cast_long_long ms of
        None \<Rightarrow> (Some TypeError, s)
      | Some w \<Rightarrow> (None, s\<lparr>actuator_time_stamp := time_point_of_milliseconds w\<rparr>))"

definition sensor_time_stamp_get :: "'bms RangerCommonSensorState \<Rightarrow> int" where
  "sensor_time_stamp_get s = sint (duration_cast_milliseconds (sensor_time_stamp s))"

definition sensor_time_stamp_set ::
  "'bms RangerCommonSensorState \<Rightarrow> int \<Rightarrow> py_error option \<times> 'bms RangerCommonSensorState" where
  "sensor_time_stamp_set s ms =
     (case cast_long_long ms of
        None \<Rightarrow> (Some TypeError, s)
      | Some w \<Rightarrow> (None, s\<lparr>sensor_time_stamp := time_point_of_milliseconds w\<rparr>))"

subsection \<open>The properties \<open>actuator_hs_state\<close> and \<open>actuator_ls_state\<close>\<close>

text \<open>
  The getters build a Python list from an iterator over the whole C array.
\<close>

definition actuator_hs_state_get ::
  "('ma, 'ms, 'hs, 'ls) RangerActuatorState \<Rightarrow> ('hs, 'ls) py_object list" where
  "actuator_hs_state_get s = map PyActuatorHS (actuator_hs_state s)"

definition actuator_ls_state_get ::
  "('ma, 'ms, 'hs, 'ls) RangerActuatorState \<Rightarrow> ('hs, 'ls) py_object list" where
  "actuator_ls_state_get s = map PyActuatorLS (actuator_ls_state s)"

text \<open>
  The loop of both setters, from index \<open>i\<close> on:
  \<^verbatim>\<open>for (size_t i = 0; i < 4; ++i) { s.arr[i] = l[i].cast<T>(); }\<close>
  The array is written in place, so an exception thrown by \<open>l[i]\<close> or by the cast leaves
  the slots written so far as they are: the result carries the array at that moment.
\<close>

function assign_slots ::
  "('o \<Rightarrow> 'm option) \<Rightarrow> nat \<Rightarrow> 'o list \<Rightarrow> 'm list \<Rightarrow> py_error option \<times> 'm list" where
  "assign_slots cast i l arr =
     (if i < 4 then
        (if i < length l then
           (case cast (l ! i) of
              None \<Rightarrow> (Some CastError, arr)
            | Some m \<Rightarrow> assign_slots cast (Suc i) l (arr[i := m]))
         else (Some IndexError, arr))
      else (None, arr))"
  by pat_completeness auto
termination
  by (relation "measure (\<lambda>(cast, i, l, arr). 4 - i)") auto

declare assign_slots.simps [simp del]

definition actuator_hs_state_set ::
  "('ma, 'ms, 'hs, 'ls) RangerActuatorState \<Rightarrow> ('hs, 'ls) py_object list \<Rightarrow>
   py_error option \<times> ('ma, 'ms, 'hs, 'ls) RangerActuatorState" where
  "actuator_hs_state_set s l =
     (if length l \<noteq> 4 then (Some (RuntimeError ''List size must be 4''), s)
      else (case assign_slots cast_ActuatorHSStateMessage 0 l (actuator_hs_state s) of
              (e, arr) \<Rightarrow> (e, s\<lparr>actuator_hs_state := arr\<rparr>)))"

definition actuator_ls_state_set ::
  "('ma, 'ms, 'hs, 'ls) RangerActuatorState \<Rightarrow> ('hs, 'ls) py_object list \<Rightarrow>
   py_error option \<times> ('ma, 'ms, 'hs, 'ls) RangerActuatorState" where
  "actuator_ls_state_set s l =
     (if length l \<noteq> 4 then (Some (RuntimeError ''List size must be 4''), s)
      else (case assign_slots cast_ActuatorLSStateMessage 0 l (actuator_ls_state s) of
              (e, arr) \<Rightarrow> (e, s\<lparr>actuator_ls_state := arr\<rparr>)))"

text \<open>
  \<open>py::init<>()\<close> value-initialises the struct: the time stamp is the clock's epoch and
  every slot of both arrays holds the default message. The default values of the message
  types are declared outside the file and are parameters.
\<close>

definition RangerActuatorState_init ::
  "'ma \<Rightarrow> 'ms \<Rightarrow> 'hs \<Rightarrow> 'ls \<Rightarrow> ('ma, 'ms, 'hs, 'ls) RangerActuatorState" where
  "RangerActuatorState_init ma0 ms0 hs0 ls0 =
     \<lparr>actuator_time_stamp = 0, motor_angles = ma0, motor_speeds = ms0,
      actuator_hs_state = replicate actuator_slots hs0,
      actuator_ls_state = replicate actuator_slots ls0\<rparr>"

text \<open>
  The writes that Python can perform on a \<open>RangerActuatorState\<close>: the three properties and
  the two \<open>def_readwrite\<close> fields. A write that raises leaves the record as the exception
  found it, and the program goes on with that record.
\<close>

datatype ('ma, 'ms, 'hs, 'ls) actuator_write =
    WriteTimeStamp int
  | WriteMotorAngles 'ma
  | WriteMotorSpeeds 'ms
  | WriteActuatorHS "('hs, 'ls) py_object list"
  | WriteActuatorLS "('hs, 'ls) py_object list"

fun apply_actuator_write ::
  "('ma, 'ms, 'hs, 'ls) actuator_write \<Rightarrow> ('ma, 'ms, 'hs, 'ls) RangerActuatorState \<Rightarrow>
   ('ma, 'ms, 'hs, 'ls) RangerActuatorState" where
  "apply_actuator_write (WriteTimeStamp ms) s = snd (actuator_time_stamp_set s ms)"
| "apply_actuator_write (WriteMotorAngles v) s = s\<lparr>motor_angles := v\<rparr>"
| "apply_actuator_write (WriteMotorSpeeds v) s = s\<lparr>motor_speeds := v\<rparr>"
| "apply_actuator_write (WriteActuatorHS l) s = snd (actuator_hs_state_set s l)"
| "apply_actuator_write (WriteActuatorLS l) s = snd (actuator_ls_state_set s l)"

subsection \<open>The class \<open>RangerRobot\<close>: default arguments\<close>

text \<open>
  The methods of \<open>RangerRobot\<close> are bound by member pointer; their bodies are not in the
  file, so each binding takes the bound C++ function as a parameter. An argument declared
  with \<open>py::arg("name") = v\<close> may be omitted by the caller (\<open>None\<close> here), and pybind11 then
  passes \<open>v\<close>. A C++ \<open>double\<close> is a real number here.
\<close>

definition RangerRobot_init :: "(bool \<Rightarrow> 'robot) \<Rightarrow> bool option \<Rightarrow> 'robot" where
  "RangerRobot_init RangerRobot is_mini_v1 =
     RangerRobot (case is_mini_v1 of None \<Rightarrow> False | Some b \<Rightarrow> b)"

definition request_version :: "('robot \<Rightarrow> int \<Rightarrow> 'r) \<Rightarrow> 'robot \<Rightarrow> int option \<Rightarrow> 'r" where
  "request_version RequestVersion self timeout_sec =
     RequestVersion self (case timeout_sec of None \<Rightarrow> 3 | Some t \<Rightarrow> t)"

definition set_motion_command ::
  "('robot \<Rightarrow> real \<Rightarrow> real \<Rightarrow> real \<Rightarrow> 'r) \<Rightarrow> 'robot \<Rightarrow> real \<Rightarrow> real \<Rightarrow> real option \<Rightarrow> 'r" where
  "set_motion_command SetMotionCommand self linear_vel steer_angle angular_vel =
     SetMotionCommand self linear_vel steer_angle
       (case angular_vel of None \<Rightarrow> 0 | Some w \<Rightarrow> w)"

subsection \<open>The command dispatcher\<close>

text \<open>
  The robot as the dispatcher sees it: whether commanded mode has been enabled, and the
  frames handed to the transport so far, oldest first.
\<close>

record 'frame RangerRobot =
  commanded_mode :: bool
  transport :: "'frame list"

record motion_limits =
  linear_vel_limit :: "real \<times> real"
  steer_angle_limit :: "real \<times> real"
  angular_vel_limit :: "real \<times> real"

definition in_limit :: "real \<times> real \<Rightarrow> real \<Rightarrow> bool" where
  "in_limit bounds x \<longleftrightarrow> fst bounds \<le> x \<and> x \<le> snd bounds"


text \<open>
  Modelled from the spec: \<open>RangerRobot::SetMotionCommand\<close>, whose body is in the missing
  core library. Section 4.5: numeric command arguments are validated against physically
  sane ranges before encoding; an out-of-range value fails with an invalid-argument
  condition rather than being clamped; success means that the frames were handed to the
  transport. The spec gives no numbers for the ranges: they are the parameter \<open>limits\<close>. The
  codec's encoding is the parameter \<open>encode\<close>. The spec lets the dispatcher either reject a
  command issued before commanded mode is enabled or send it anyway: \<open>fail_fast\<close> selects
  the first.
\<close>

definition SetMotionCommand ::
  "bool \<Rightarrow> motion_limits \<Rightarrow> (real \<Rightarrow> real \<Rightarrow> real \<Rightarrow> 'frame list) \<Rightarrow>
   'frame RangerRobot \<Rightarrow> real \<Rightarrow> real \<Rightarrow> real \<Rightarrow> py_error option \<times> 'frame RangerRobot" where
  "SetMotionCommand fail_fast limits encode r linear_vel steer_angle angular_vel =
     (if \<not> (in_limit (linear_vel_limit limits) linear_vel \<and>
             in_limit (steer_angle_limit limits) steer_angle \<and>
             in_limit (angular_vel_limit limits) angular_vel)
      then (Some InvalidArgument, r)
      else if fail_fast \<and> \<not> commanded_mode r then (Some CommandRejected, r)
      else (None, r\<lparr>transport := transport r @ encode linear_vel steer_angle angular_vel\<rparr>))"

subsection \<open>The state aggregator\<close>

text \<open>
  Modelled from the spec: the decoded messages and the State Aggregator's \<open>merge\<close>, which
  live in the missing core library. Section 3 lists seven message kinds; the two actuator
  kinds carry the wheel index that the codec extracted. Section 4.3: \<open>merge\<close> updates
  exactly the aggregate fields of the incoming message's kind and refreshes that
  aggregate's time stamp to the time of the merge; an actuator merge indexes the 4-slot
  array with the wheel index, and an out-of-range index is rejected and dropped.
\<close>

datatype ('sys, 'mot, 'lgt, 'rc, 'hs, 'ls, 'bms) TypedMessage =
    SystemStateMessage 'sys
  | MotionStateMessage 'mot
  | LightStateMessage 'lgt
  | RcStateMessage 'rc
  | ActuatorHSStateMessage nat 'hs
  | ActuatorLSStateMessage nat 'ls
  | BmsBasicMessage 'bms

record ('sys, 'mot, 'lgt, 'mm, 'rc, 'odo, 'ma, 'ms, 'hs, 'ls, 'bms) aggregates =
  core :: "('sys, 'mot, 'lgt, 'mm, 'rc, 'odo) RangerCoreState"
  actuator :: "('ma, 'ms, 'hs, 'ls) RangerActuatorState"
  sensor :: "'bms RangerCommonSensorState"

fun merge ::
  "int64 \<Rightarrow> ('sys, 'mot, 'lgt, 'rc, 'hs, 'ls, 'bms) TypedMessage \<Rightarrow>
   ('sys, 'mot, 'lgt, 'mm, 'rc, 'odo, 'ma, 'ms, 'hs, 'ls, 'bms) aggregates \<Rightarrow>
   ('sys, 'mot, 'lgt, 'mm, 'rc, 'odo, 'ma, 'ms, 'hs, 'ls, 'bms) aggregates" where
  "merge now (SystemStateMessage m) a =
     a\<lparr>core := (core a)\<lparr>core_time_stamp := now, system_state := m\<rparr>\<rparr>"
| "merge now (MotionStateMessage m) a =
     a\<lparr>core := (core a)\<lparr>core_time_stamp := now, motion_state := m\<rparr>\<rparr>"
| "merge now (LightStateMessage m) a =
     a\<lparr>core := (core a)\<lparr>core_time_stamp := now, light_state := m\<rparr>\<rparr>"
| "merge now (RcStateMessage m) a =
     a\<lparr>core := (core a)\<lparr>core_time_stamp := now, rc_state := m\<rparr>\<rparr>"
| "merge now (ActuatorHSStateMessage i m) a =
     (if i < actuator_slots then
        a\<lparr>actuator := (actuator a)\<lparr>actuator_time_stamp := now,
             actuator_hs_state := (actuator_hs_state (actuator a))[i := m]\<rparr>\<rparr>
      else a)"
| "merge now (ActuatorLSStateMessage i m) a =
     (if i < actuator_slots then
        a\<lparr>actuator := (actuator a)\<lparr>actuator_time_stamp := now,
             actuator_ls_state := (actuator_ls_state (actuator a))[i := m]\<rparr>\<rparr>
      else a)"
| "merge now (BmsBasicMessage m) a =
     a\<lparr>sensor := (sensor a)\<lparr>sensor_time_stamp := now, bms_basic_state := m\<rparr>\<rparr>"

text \<open>Two aggregates that agree on everything but the three time stamps.\<close>

definition same_except_time_stamp ::
  "('sys, 'mot, 'lgt, 'mm, 'rc, 'odo, 'ma, 'ms, 'hs, 'ls, 'bms) aggregates \<Rightarrow>
   ('sys, 'mot, 'lgt, 'mm, 'rc, 'odo, 'ma, 'ms, 'hs, 'ls, 'bms) aggregates \<Rightarrow> bool" where
  "same_except_time_stamp a b \<longleftrightarrow>
     (core a)\<lparr>core_time_stamp := 0\<rparr> = (core b)\<lparr>core_time_stamp := 0\<rparr> \<and>
     (actuator a)\<lparr>actuator_time_stamp := 0\<rparr> = (actuator b)\<lparr>actuator_time_stamp := 0\<rparr> \<and>
     (sensor a)\<lparr>sensor_time_stamp := 0\<rparr> = (sensor b)\<lparr>sensor_time_stamp := 0\<rparr>"

section \<open>Properties\<close>

subsection \<open>Arithmetic of the time stamp conversions\<close>

lemma sdiv_nonneg: "0 \<le> a \<Longrightarrow> 0 < c \<Longrightarrow> a sdiv c = a div (c::int)"
  by (cases "a = 0") (simp_all add: signed_divide_int_def)

lemma sdiv_nonpos: "a \<le> 0 \<Longrightarrow> 0 < c \<Longrightarrow> a sdiv c = - ((- a) div (c::int))"
  by (cases "a = 0") (simp_all add: signed_divide_int_def)

lemma sdiv_mult_self: "0 < c \<Longrightarrow> (a * c) sdiv c = (a::int)"
  by (simp add: signed_divide_int_def abs_mult sgn_mult mult_sgn_abs)

lemma sint_in_range:
  assumes "- (2 ^ 63) \<le> k" "k < 2 ^ 63"
  shows "sint (word_of_int k :: int64) = k"
proof -
  have "signed_take_bit 63 k = k"
    by (rule signed_take_bit_int_eq_self) (use assms in simp_all)
  then show ?thesis by (simp add: sint_sbintrunc')
qed

lemma sdiv_million_bounds:
  assumes "- (2 ^ 63) \<le> t" "t < 2 ^ 63"
  shows "- 9223372036854 \<le> t sdiv 1000000 \<and> t sdiv 1000000 \<le> (9223372036854::int)"
proof (cases "0 \<le> t")
  case True
  then have e: "t sdiv 1000000 = t div 1000000" by (simp add: sdiv_nonneg)
  have "t div 1000000 \<le> 9223372036854775807 div 1000000"
    by (rule zdiv_mono1) (use assms in simp_all)
  moreover have "0 \<le> t div 1000000" using True by (simp add: pos_imp_zdiv_nonneg_iff)
  ultimately show ?thesis using e by simp
next
  case False
  then have e: "t sdiv 1000000 = - ((- t) div 1000000)" by (simp add: sdiv_nonpos)
  have "(- t) div 1000000 \<le> 9223372036854775808 div 1000000"
    by (rule zdiv_mono1) (use assms in simp_all)
  moreover have "0 \<le> (- t) div 1000000" using False by (simp add: pos_imp_zdiv_nonneg_iff)
  ultimately show ?thesis using e by simp
qed

lemma sint_duration_cast: "sint (duration_cast_milliseconds t) = sint t sdiv 1000000"
proof -
  have r: "- (2 ^ 63) \<le> sint t" "sint t < 2 ^ 63"
    using sint_ge[of t] sint_lt[of t] by simp_all
  from sdiv_million_bounds[OF r]
  have "- (2 ^ 63) \<le> sint t sdiv 1000000" "sint t sdiv 1000000 < 2 ^ 63" by simp_all
  then show ?thesis
    unfolding duration_cast_milliseconds_def by (rule sint_in_range)
qed

lemma duration_cast_bounds:
  "- 9223372036854 \<le> sint (duration_cast_milliseconds t) \<and>
   sint (duration_cast_milliseconds t) \<le> 9223372036854"
proof -
  have r: "- (2 ^ 63) \<le> sint t" "sint t < 2 ^ 63"
    using sint_ge[of t] sint_lt[of t] by simp_all
  show ?thesis unfolding sint_duration_cast by (rule sdiv_million_bounds[OF r])
qed

lemma sint_time_point:
  assumes "- 9223372036854 \<le> ms" "ms \<le> 9223372036854"
  shows "sint (time_point_of_milliseconds (word_of_int ms)) = ms * 1000000"
proof -
  have "- (2 ^ 63) \<le> ms * 1000000" "ms * 1000000 < 2 ^ 63" using assms by simp_all
  then have "sint (word_of_int (ms * 1000000) :: int64) = ms * 1000000"
    by (rule sint_in_range)
  then show ?thesis by (simp add: time_point_of_milliseconds_def)
qed

lemma sint_time_point_wrap:
  "sint (time_point_of_milliseconds (word_of_int ms)) =
     (ms * 1000000 + 2 ^ 63) mod 2 ^ 64 - 2 ^ 63"
proof -
  have "sint (word_of_int (ms * 1000000) :: int64) =
          signed_take_bit (LENGTH(64) - 1) (ms * 1000000)"
    by (rule sint_sbintrunc')
  also have "\<dots> = signed_take_bit 63 (ms * 1000000)" by simp
  also have "\<dots> = take_bit 64 (ms * 1000000 + 2 ^ 63) - 2 ^ 63"
    by (simp add: signed_take_bit_eq_take_bit_shift)
  finally show ?thesis by (simp add: time_point_of_milliseconds_def take_bit_eq_mod)
qed

lemma milliseconds_round_trip:
  assumes "- 9223372036854 \<le> ms" "ms \<le> 9223372036854"
  shows "sint (duration_cast_milliseconds (time_point_of_milliseconds (word_of_int ms))) = ms"
  using sdiv_mult_self[of 1000000 ms]
  by (simp add: sint_duration_cast sint_time_point[OF assms])

lemma cast_long_long_Some:
  "- 9223372036854775808 \<le> ms \<Longrightarrow> ms < 9223372036854775808 \<Longrightarrow> cast_long_long ms = Some (word_of_int ms)"
  by (simp add: cast_long_long_def)

subsection \<open>Time stamps round-trip within the clock's range\<close>

text \<open>
  Claim C3, amended. For each of the three aggregate records and every integer \<open>ms\<close> with
  \<open>-9223372036854 \<le> ms \<le> 9223372036854\<close> (the millisecond counts whose nanosecond count
  fits the clock's signed 64-bit ticks), setting \<open>time_stamp\<close> to \<open>ms\<close> succeeds and a
  following read of \<open>time_stamp\<close> returns exactly \<open>ms\<close>.
\<close>

theorem time_stamp_round_trip:
  fixes c :: "('sys, 'mot, 'lgt, 'mm, 'rc, 'odo) RangerCoreState"
    and a :: "('ma, 'ms, 'hs, 'ls) RangerActuatorState"
    and b :: "'bms RangerCommonSensorState"
  assumes "- 9223372036854 \<le> ms" "ms \<le> 9223372036854"
  shows "fst (core_time_stamp_set c ms) = None \<and>
         core_time_stamp_get (snd (core_time_stamp_set c ms)) = ms \<and>
         fst (actuator_time_stamp_set a ms) = None \<and>
         actuator_time_stamp_get (snd (actuator_time_stamp_set a ms)) = ms \<and>
         fst (sensor_time_stamp_set b ms) = None \<and>
         sensor_time_stamp_get (snd (sensor_time_stamp_set b ms)) = ms"
proof -
  have c: "cast_long_long ms = Some (word_of_int ms)"
    using assms by (simp add: cast_long_long_Some)
  show ?thesis
    by (simp add: c core_time_stamp_set_def core_time_stamp_get_def
        actuator_time_stamp_set_def actuator_time_stamp_get_def
        sensor_time_stamp_set_def sensor_time_stamp_get_def
        milliseconds_round_trip[OF assms])
qed

theorem time_stamp_round_trip_witness:
  "- 9223372036854 \<le> (-5::int) \<and> (-5::int) \<le> 9223372036854 \<and>
   fst (core_time_stamp_set
     \<lparr>core_time_stamp = 7, system_state = (), motion_state = (), light_state = (),
      motion_mode_state = (), rc_state = (), odometry = ()\<rparr> (-5)) = None \<and>
   core_time_stamp_get (snd (core_time_stamp_set
     \<lparr>core_time_stamp = 7, system_state = (), motion_state = (), light_state = (),
      motion_mode_state = (), rc_state = (), odometry = ()\<rparr> (-5))) = -5 \<and>
   actuator_time_stamp_get (snd (actuator_time_stamp_set
     \<lparr>actuator_time_stamp = 7, motor_angles = (), motor_speeds = (),
      actuator_hs_state = [1, 2, 3, 4::nat], actuator_ls_state = [5, 6, 7, 8::nat]\<rparr> (-5))) = -5 \<and>
   sensor_time_stamp_get (snd (sensor_time_stamp_set
     \<lparr>sensor_time_stamp = 7, bms_basic_state = ()\<rparr> (-5))) = -5"
  using time_stamp_round_trip [of "-5"
     "\<lparr>core_time_stamp = 7, system_state = (), motion_state = (), light_state = (),
      motion_mode_state = (), rc_state = (), odometry = ()\<rparr>"
     "\<lparr>actuator_time_stamp = 7, motor_angles = (), motor_speeds = (),
      actuator_hs_state = [1, 2, 3, 4::nat], actuator_ls_state = [5, 6, 7, 8::nat]\<rparr>"
     "\<lparr>sensor_time_stamp = 7, bms_basic_state = ()\<rparr>"]
  by simp

text \<open>
  The claim as it was stated, for every integer: 9223372036855 fits a \<open>long long\<close>, so the
  setter accepts it, but its nanosecond count does not fit the clock's ticks, and the read
  returns -9223372036854.
\<close>

theorem time_stamp_round_trip_counterexample:
  "fst (core_time_stamp_set
     \<lparr>core_time_stamp = 0, system_state = (), motion_state = (), light_state = (),
      motion_mode_state = (), rc_state = (), odometry = ()\<rparr> 9223372036855) = None \<and>
   core_time_stamp_get (snd (core_time_stamp_set
     \<lparr>core_time_stamp = 0, system_state = (), motion_state = (), light_state = (),
      motion_mode_state = (), rc_state = (), odometry = ()\<rparr> 9223372036855)) = - 9223372036854 \<and>
   core_time_stamp_get (snd (core_time_stamp_set
     \<lparr>core_time_stamp = 0, system_state = (), motion_state = (), light_state = (),
      motion_mode_state = (), rc_state = (), odometry = ()\<rparr> 9223372036855)) \<noteq> 9223372036855"
  by (simp add: core_time_stamp_set_def core_time_stamp_get_def cast_long_long_def
      time_point_of_milliseconds_def duration_cast_milliseconds_def signed_divide_int_def)

subsection \<open>Reading a time stamp truncates to whole milliseconds\<close>

lemma sdiv_million_trunc:
  "\<bar>t - (t sdiv 1000000) * 1000000\<bar> < (1000000::int) \<and> \<bar>(t sdiv 1000000) * 1000000\<bar> \<le> \<bar>t\<bar>"
proof (cases "0 \<le> t")
  case True
  then have e: "t sdiv 1000000 = t div 1000000" by (simp add: sdiv_nonneg)
  have "t = (t div 1000000) * 1000000 + t mod 1000000" by simp
  moreover have "0 \<le> t mod 1000000" "t mod 1000000 < 1000000" by simp_all
  moreover have "0 \<le> t div 1000000" using True by (simp add: pos_imp_zdiv_nonneg_iff)
  ultimately show ?thesis unfolding e using True by linarith
next
  case False
  then have e: "t sdiv 1000000 = - ((- t) div 1000000)" by (simp add: sdiv_nonpos)
  have "- t = ((- t) div 1000000) * 1000000 + (- t) mod 1000000" by simp
  moreover have "0 \<le> (- t) mod 1000000" "(- t) mod 1000000 < 1000000" by simp_all
  moreover have "0 \<le> (- t) div 1000000" using False by (simp add: pos_imp_zdiv_nonneg_iff)
  ultimately show ?thesis unfolding e using False by linarith
qed

lemma sdiv_million_bucket:
  assumes "0 \<le> k" "0 \<le> r" "r < 1000000"
  shows "(k * 1000000 + r) sdiv 1000000 = (k::int)"
    and "(- (k * 1000000 + r)) sdiv 1000000 = - k"
proof -
  have d: "(k * 1000000 + r) div 1000000 = k" using assms by simp
  have n: "0 \<le> k * 1000000 + r" using assms by simp
  show "(k * 1000000 + r) sdiv 1000000 = k" using n d by (simp add: sdiv_nonneg)
  have "- (k * 1000000 + r) \<le> 0" using n by simp
  then have "(- (k * 1000000 + r)) sdiv 1000000 = - ((- (- (k * 1000000 + r))) div 1000000)"
    by (rule sdiv_nonpos) simp
  then show "(- (k * 1000000 + r)) sdiv 1000000 = - k" using d by simp
qed

lemma sint_bounds64: "- (2 ^ 63) \<le> sint (t::int64)" "sint (t::int64) < 2 ^ 63"
  using sint_ge[of t] sint_lt[of t] by simp_all

lemma time_stamp_rewrite:
  "cast_long_long (sint t sdiv 1000000) = Some (duration_cast_milliseconds t)"
  using sdiv_million_bounds[OF sint_bounds64, of t]
  by (simp add: cast_long_long_def duration_cast_milliseconds_def)

lemma sint_rewritten:
  "sint (time_point_of_milliseconds (duration_cast_milliseconds t)) =
     (sint t sdiv 1000000) * 1000000"
proof -
  have b: "- 9223372036854 \<le> sint t sdiv 1000000" "sint t sdiv 1000000 \<le> 9223372036854"
    using sdiv_million_bounds[OF sint_bounds64, of t] by simp_all
  show ?thesis unfolding duration_cast_milliseconds_def by (rule sint_time_point[OF b])
qed

lemma core_time_stamp_get_general:
  fixes c :: "('sys, 'mot, 'lgt, 'mm, 'rc, 'odo) RangerCoreState"
  shows
    "core_time_stamp_get c = sint (core_time_stamp c) sdiv 1000000 \<and>
     \<bar>core_time_stamp_get c * 1000000\<bar> \<le> \<bar>sint (core_time_stamp c)\<bar> \<and>
     \<bar>sint (core_time_stamp c) - core_time_stamp_get c * 1000000\<bar> < 1000000 \<and>
     fst (core_time_stamp_set c (core_time_stamp_get c)) = None \<and>
     sint (core_time_stamp (snd (core_time_stamp_set c (core_time_stamp_get c)))) =
       core_time_stamp_get c * 1000000"
proof -
  have g: "core_time_stamp_get c = sint (core_time_stamp c) sdiv 1000000"
    by (simp add: core_time_stamp_get_def sint_duration_cast)
  have t: "\<bar>core_time_stamp_get c * 1000000\<bar> \<le> \<bar>sint (core_time_stamp c)\<bar>"
    "\<bar>sint (core_time_stamp c) - core_time_stamp_get c * 1000000\<bar> < 1000000"
    unfolding g using sdiv_million_trunc by blast+
  have w: "fst (core_time_stamp_set c (core_time_stamp_get c)) = None"
    "sint (core_time_stamp (snd (core_time_stamp_set c (core_time_stamp_get c)))) =
       core_time_stamp_get c * 1000000"
    by (simp_all add: core_time_stamp_set_def core_time_stamp_get_def
        time_stamp_rewrite sint_rewritten sint_duration_cast)
  show ?thesis using g t w by blast
qed

lemma core_time_stamp_get_bucket:
  fixes c :: "('sys, 'mot, 'lgt, 'mm, 'rc, 'odo) RangerCoreState"
  assumes h: "0 \<le> k" "k \<le> 9223372036853" "0 \<le> r" "r < 1000000"
  shows
    "core_time_stamp_get (c\<lparr>core_time_stamp := word_of_int (k * 1000000 + r)\<rparr>) = k \<and>
     core_time_stamp_get (c\<lparr>core_time_stamp := word_of_int (- (k * 1000000 + r))\<rparr>) = - k"
proof -
  have p: "sint (word_of_int (k * 1000000 + r) :: int64) = k * 1000000 + r"
    by (rule sint_in_range) (use h in simp_all)
  have m: "sint (word_of_int (- (k * 1000000 + r)) :: int64) = - (k * 1000000 + r)"
    by (rule sint_in_range) (use h in simp_all)
  show ?thesis
    using p m sdiv_million_bucket[OF h(1) h(3) h(4)]
    by (simp add: core_time_stamp_get_def sint_duration_cast)
qed

lemma actuator_time_stamp_get_general:
  fixes a :: "('ma, 'ms, 'hs, 'ls) RangerActuatorState"
  shows
    "actuator_time_stamp_get a = sint (actuator_time_stamp a) sdiv 1000000 \<and>
     \<bar>actuator_time_stamp_get a * 1000000\<bar> \<le> \<bar>sint (actuator_time_stamp a)\<bar> \<and>
     \<bar>sint (actuator_time_stamp a) - actuator_time_stamp_get a * 1000000\<bar> < 1000000 \<and>
     fst (actuator_time_stamp_set a (actuator_time_stamp_get a)) = None \<and>
     sint (actuator_time_stamp (snd (actuator_time_stamp_set a (actuator_time_stamp_get a)))) =
       actuator_time_stamp_get a * 1000000"
proof -
  have g: "actuator_time_stamp_get a = sint (actuator_time_stamp a) sdiv 1000000"
    by (simp add: actuator_time_stamp_get_def sint_duration_cast)
  have t: "\<bar>actuator_time_stamp_get a * 1000000\<bar> \<le> \<bar>sint (actuator_time_stamp a)\<bar>"
    "\<bar>sint (actuator_time_stamp a) - actuator_time_stamp_get a * 1000000\<bar> < 1000000"
    unfolding g using sdiv_million_trunc by blast+
  have w: "fst (actuator_time_stamp_set a (actuator_time_stamp_get a)) = None"
    "sint (actuator_time_stamp (snd (actuator_time_stamp_set a (actuator_time_stamp_get a)))) =
       actuator_time_stamp_get a * 1000000"
    by (simp_all add: actuator_time_stamp_set_def actuator_time_stamp_get_def
        time_stamp_rewrite sint_rewritten sint_duration_cast)
  show ?thesis using g t w by blast
qed

lemma actuator_time_stamp_get_bucket:
  fixes a :: "('ma, 'ms, 'hs, 'ls) RangerActuatorState"
  assumes h: "0 \<le> k" "k \<le> 9223372036853" "0 \<le> r" "r < 1000000"
  shows
    "actuator_time_stamp_get (a\<lparr>actuator_time_stamp := word_of_int (k * 1000000 + r)\<rparr>) = k \<and>
     actuator_time_stamp_get (a\<lparr>actuator_time_stamp := word_of_int (- (k * 1000000 + r))\<rparr>) = - k"
proof -
  have p: "sint (word_of_int (k * 1000000 + r) :: int64) = k * 1000000 + r"
    by (rule sint_in_range) (use h in simp_all)
  have m: "sint (word_of_int (- (k * 1000000 + r)) :: int64) = - (k * 1000000 + r)"
    by (rule sint_in_range) (use h in simp_all)
  show ?thesis
    using p m sdiv_million_bucket[OF h(1) h(3) h(4)]
    by (simp add: actuator_time_stamp_get_def sint_duration_cast)
qed

lemma sensor_time_stamp_get_general:
  fixes b :: "'bms RangerCommonSensorState"
  shows
    "sensor_time_stamp_get b = sint (sensor_time_stamp b) sdiv 1000000 \<and>
     \<bar>sensor_time_stamp_get b * 1000000\<bar> \<le> \<bar>sint (sensor_time_stamp b)\<bar> \<and>
     \<bar>sint (sensor_time_stamp b) - sensor_time_stamp_get b * 1000000\<bar> < 1000000 \<and>
     fst (sensor_time_stamp_set b (sensor_time_stamp_get b)) = None \<and>
     sint (sensor_time_stamp (snd (sensor_time_stamp_set b (sensor_time_stamp_get b)))) =
       sensor_time_stamp_get b * 1000000"
proof -
  have g: "sensor_time_stamp_get b = sint (sensor_time_stamp b) sdiv 1000000"
    by (simp add: sensor_time_stamp_get_def sint_duration_cast)
  have t: "\<bar>sensor_time_stamp_get b * 1000000\<bar> \<le> \<bar>sint (sensor_time_stamp b)\<bar>"
    "\<bar>sint (sensor_time_stamp b) - sensor_time_stamp_get b * 1000000\<bar> < 1000000"
    unfolding g using sdiv_million_trunc by blast+
  have w: "fst (sensor_time_stamp_set b (sensor_time_stamp_get b)) = None"
    "sint (sensor_time_stamp (snd (sensor_time_stamp_set b (sensor_time_stamp_get b)))) =
       sensor_time_stamp_get b * 1000000"
    by (simp_all add: sensor_time_stamp_set_def sensor_time_stamp_get_def
        time_stamp_rewrite sint_rewritten sint_duration_cast)
  show ?thesis using g t w by blast
qed

lemma sensor_time_stamp_get_bucket:
  fixes b :: "'bms RangerCommonSensorState"
  assumes h: "0 \<le> k" "k \<le> 9223372036853" "0 \<le> r" "r < 1000000"
  shows
    "sensor_time_stamp_get (b\<lparr>sensor_time_stamp := word_of_int (k * 1000000 + r)\<rparr>) = k \<and>
     sensor_time_stamp_get (b\<lparr>sensor_time_stamp := word_of_int (- (k * 1000000 + r))\<rparr>) = - k"
proof -
  have p: "sint (word_of_int (k * 1000000 + r) :: int64) = k * 1000000 + r"
    by (rule sint_in_range) (use h in simp_all)
  have m: "sint (word_of_int (- (k * 1000000 + r)) :: int64) = - (k * 1000000 + r)"
    by (rule sint_in_range) (use h in simp_all)
  show ?thesis
    using p m sdiv_million_bucket[OF h(1) h(3) h(4)]
    by (simp add: sensor_time_stamp_get_def sint_duration_cast)
qed

text \<open>
  Claim C8. For each of the three aggregate records, reading \<open>time_stamp\<close> divides the
  stored nanosecond count by 1000000 and truncates towards zero: the value read, taken back
  to nanoseconds, is no larger in magnitude than the stored count and differs from it by
  less than a millisecond. Writing the value read back succeeds and stores the whole
  milliseconds only, so the sub-millisecond part is lost. Two stored instants
  \<open>k * 1000000 + r\<close> with the same \<open>k\<close> read as \<open>k\<close> whatever \<open>r\<close> is, and their negatives
  read as \<open>-k\<close>.
\<close>

theorem time_stamp_get_truncates:
  fixes c :: "('sys, 'mot, 'lgt, 'mm, 'rc, 'odo) RangerCoreState"
    and a :: "('ma, 'ms, 'hs, 'ls) RangerActuatorState"
    and b :: "'bms RangerCommonSensorState"
  shows
    "(core_time_stamp_get c = sint (core_time_stamp c) sdiv 1000000 \<and>
     \<bar>core_time_stamp_get c * 1000000\<bar> \<le> \<bar>sint (core_time_stamp c)\<bar> \<and>
     \<bar>sint (core_time_stamp c) - core_time_stamp_get c * 1000000\<bar> < 1000000 \<and>
     fst (core_time_stamp_set c (core_time_stamp_get c)) = None \<and>
     sint (core_time_stamp (snd (core_time_stamp_set c (core_time_stamp_get c)))) =
       core_time_stamp_get c * 1000000) \<and>
     (actuator_time_stamp_get a = sint (actuator_time_stamp a) sdiv 1000000 \<and>
     \<bar>actuator_time_stamp_get a * 1000000\<bar> \<le> \<bar>sint (actuator_time_stamp a)\<bar> \<and>
     \<bar>sint (actuator_time_stamp a) - actuator_time_stamp_get a * 1000000\<bar> < 1000000 \<and>
     fst (actuator_time_stamp_set a (actuator_time_stamp_get a)) = None \<and>
     sint (actuator_time_stamp (snd (actuator_time_stamp_set a (actuator_time_stamp_get a)))) =
       actuator_time_stamp_get a * 1000000) \<and>
     (sensor_time_stamp_get b = sint (sensor_time_stamp b) sdiv 1000000 \<and>
     \<bar>sensor_time_stamp_get b * 1000000\<bar> \<le> \<bar>sint (sensor_time_stamp b)\<bar> \<and>
     \<bar>sint (sensor_time_stamp b) - sensor_time_stamp_get b * 1000000\<bar> < 1000000 \<and>
     fst (sensor_time_stamp_set b (sensor_time_stamp_get b)) = None \<and>
     sint (sensor_time_stamp (snd (sensor_time_stamp_set b (sensor_time_stamp_get b)))) =
       sensor_time_stamp_get b * 1000000) \<and>
     (0 \<le> k \<and> k \<le> 9223372036853 \<and> 0 \<le> r \<and> r < 1000000 \<longrightarrow>
        core_time_stamp_get (c\<lparr>core_time_stamp := word_of_int (k * 1000000 + r)\<rparr>) = k \<and>
        core_time_stamp_get (c\<lparr>core_time_stamp := word_of_int (- (k * 1000000 + r))\<rparr>) = - k \<and>
        actuator_time_stamp_get (a\<lparr>actuator_time_stamp := word_of_int (k * 1000000 + r)\<rparr>) = k \<and>
        actuator_time_stamp_get (a\<lparr>actuator_time_stamp := word_of_int (- (k * 1000000 + r))\<rparr>) = - k \<and>
        sensor_time_stamp_get (b\<lparr>sensor_time_stamp := word_of_int (k * 1000000 + r)\<rparr>) = k \<and>
        sensor_time_stamp_get (b\<lparr>sensor_time_stamp := word_of_int (- (k * 1000000 + r))\<rparr>) = - k)"
  using core_time_stamp_get_general[of c] actuator_time_stamp_get_general[of a]
    sensor_time_stamp_get_general[of b]
    core_time_stamp_get_bucket[of k r c] actuator_time_stamp_get_bucket[of k r a]
    sensor_time_stamp_get_bucket[of k r b]
  by blast

theorem time_stamp_get_truncates_witness:
  "core_time_stamp_get
     \<lparr>core_time_stamp = 3999999, system_state = (), motion_state = (), light_state = (),
      motion_mode_state = (), rc_state = (), odometry = ()\<rparr> = 3 \<and>
   core_time_stamp_get
     (\<lparr>core_time_stamp = 3999999, system_state = (), motion_state = (), light_state = (),
      motion_mode_state = (), rc_state = (), odometry = ()\<rparr>\<lparr>core_time_stamp := 3000000\<rparr>) = 3 \<and>
   core_time_stamp_get
     (\<lparr>core_time_stamp = 3999999, system_state = (), motion_state = (), light_state = (),
      motion_mode_state = (), rc_state = (), odometry = ()\<rparr>\<lparr>core_time_stamp := - 3999999\<rparr>) = - 3 \<and>
   fst (core_time_stamp_set
     \<lparr>core_time_stamp = 3999999, system_state = (), motion_state = (), light_state = (),
      motion_mode_state = (), rc_state = (), odometry = ()\<rparr> 3) = None \<and>
   sint (core_time_stamp (snd (core_time_stamp_set
     \<lparr>core_time_stamp = 3999999, system_state = (), motion_state = (), light_state = (),
      motion_mode_state = (), rc_state = (), odometry = ()\<rparr> 3))) = 3000000 \<and>
   actuator_time_stamp_get
     \<lparr>actuator_time_stamp = 3999999, motor_angles = (), motor_speeds = (),
      actuator_hs_state = [1, 2, 3, 4::nat], actuator_ls_state = [5, 6, 7, 8::nat]\<rparr> = 3 \<and>
   sensor_time_stamp_get
     (\<lparr>sensor_time_stamp = 3999999, bms_basic_state = ()\<rparr>\<lparr>sensor_time_stamp := - 3999999\<rparr>) = - 3"
  using time_stamp_get_truncates [of
     "\<lparr>core_time_stamp = 3999999, system_state = (), motion_state = (), light_state = (),
      motion_mode_state = (), rc_state = (), odometry = ()\<rparr>"
     "\<lparr>actuator_time_stamp = 3999999, motor_angles = (), motor_speeds = (),
      actuator_hs_state = [1, 2, 3, 4::nat], actuator_ls_state = [5, 6, 7, 8::nat]\<rparr>"
     "\<lparr>sensor_time_stamp = 3999999, bms_basic_state = ()\<rparr>" 3 0]
    time_stamp_get_truncates [of
     "\<lparr>core_time_stamp = 3999999, system_state = (), motion_state = (), light_state = (),
      motion_mode_state = (), rc_state = (), odometry = ()\<rparr>"
     "\<lparr>actuator_time_stamp = 3999999, motor_angles = (), motor_speeds = (),
      actuator_hs_state = [1, 2, 3, 4::nat], actuator_ls_state = [5, 6, 7, 8::nat]\<rparr>"
     "\<lparr>sensor_time_stamp = 3999999, bms_basic_state = ()\<rparr>" 3 999999]
  by (simp add: signed_divide_int_def)

subsection \<open>What the time stamp setter accepts\<close>

text \<open>
  Claim C9, amended. The \<open>time_stamp\<close> setter checks no sign; its only rejection is
  pybind11's conversion of the argument to \<open>long long\<close>. For each of the three records,
  setting \<open>time_stamp\<close> to \<open>ms\<close> succeeds without raising exactly when
  \<open>-2^63 \<le> ms < 2^63\<close>, and for every \<open>ms\<close> with \<open>-9223372036854 \<le> ms \<le> 9223372036854\<close>,
  negative values included, a following read returns that (possibly negative) value.
\<close>

theorem time_stamp_set_checks_no_sign:
  fixes c :: "('sys, 'mot, 'lgt, 'mm, 'rc, 'odo) RangerCoreState"
    and a :: "('ma, 'ms, 'hs, 'ls) RangerActuatorState"
    and b :: "'bms RangerCommonSensorState"
  shows
    "(fst (core_time_stamp_set c ms) = None \<longleftrightarrow>
        - 9223372036854775808 \<le> ms \<and> ms < 9223372036854775808) \<and>
     (fst (actuator_time_stamp_set a ms) = None \<longleftrightarrow>
        - 9223372036854775808 \<le> ms \<and> ms < 9223372036854775808) \<and>
     (fst (sensor_time_stamp_set b ms) = None \<longleftrightarrow>
        - 9223372036854775808 \<le> ms \<and> ms < 9223372036854775808) \<and>
     (- 9223372036854 \<le> ms \<and> ms \<le> 9223372036854 \<longrightarrow>
        core_time_stamp_get (snd (core_time_stamp_set c ms)) = ms \<and>
        actuator_time_stamp_get (snd (actuator_time_stamp_set a ms)) = ms \<and>
        sensor_time_stamp_get (snd (sensor_time_stamp_set b ms)) = ms)"
proof -
  have acc: "fst (core_time_stamp_set c ms) = None \<longleftrightarrow>
        - 9223372036854775808 \<le> ms \<and> ms < 9223372036854775808"
    "fst (actuator_time_stamp_set a ms) = None \<longleftrightarrow>
        - 9223372036854775808 \<le> ms \<and> ms < 9223372036854775808"
    "fst (sensor_time_stamp_set b ms) = None \<longleftrightarrow>
        - 9223372036854775808 \<le> ms \<and> ms < 9223372036854775808"
    by (simp_all add: core_time_stamp_set_def actuator_time_stamp_set_def
        sensor_time_stamp_set_def cast_long_long_def)
  have rd: "core_time_stamp_get (snd (core_time_stamp_set c ms)) = ms \<and>
        actuator_time_stamp_get (snd (actuator_time_stamp_set a ms)) = ms \<and>
        sensor_time_stamp_get (snd (sensor_time_stamp_set b ms)) = ms"
    if h: "- 9223372036854 \<le> ms" "ms \<le> 9223372036854"
  proof -
    have cl: "cast_long_long ms = Some (word_of_int ms)"
      using h by (simp add: cast_long_long_Some)
    show ?thesis
      by (simp add: cl core_time_stamp_set_def core_time_stamp_get_def
          actuator_time_stamp_set_def actuator_time_stamp_get_def
          sensor_time_stamp_set_def sensor_time_stamp_get_def
          milliseconds_round_trip[OF h])
  qed
  show ?thesis using acc rd by blast
qed

theorem time_stamp_set_checks_no_sign_witness:
  "fst (core_time_stamp_set
     \<lparr>core_time_stamp = 7, system_state = (), motion_state = (), light_state = (),
      motion_mode_state = (), rc_state = (), odometry = ()\<rparr> (- 1500)) = None \<and>
   core_time_stamp_get (snd (core_time_stamp_set
     \<lparr>core_time_stamp = 7, system_state = (), motion_state = (), light_state = (),
      motion_mode_state = (), rc_state = (), odometry = ()\<rparr> (- 1500))) = - 1500 \<and>
   actuator_time_stamp_get (snd (actuator_time_stamp_set
     \<lparr>actuator_time_stamp = 7, motor_angles = (), motor_speeds = (),
      actuator_hs_state = [1, 2, 3, 4::nat], actuator_ls_state = [5, 6, 7, 8::nat]\<rparr>
     (- 1500))) = - 1500 \<and>
   sensor_time_stamp_get (snd (sensor_time_stamp_set
     \<lparr>sensor_time_stamp = 7, bms_basic_state = ()\<rparr> (- 1500))) = - 1500 \<and>
   fst (core_time_stamp_set
     \<lparr>core_time_stamp = 7, system_state = (), motion_state = (), light_state = (),
      motion_mode_state = (), rc_state = (), odometry = ()\<rparr> 9223372036854) = None \<and>
   core_time_stamp_get (snd (core_time_stamp_set
     \<lparr>core_time_stamp = 7, system_state = (), motion_state = (), light_state = (),
      motion_mode_state = (), rc_state = (), odometry = ()\<rparr> 9223372036854)) = 9223372036854"
  using time_stamp_set_checks_no_sign [of
     "\<lparr>core_time_stamp = 7, system_state = (), motion_state = (), light_state = (),
      motion_mode_state = (), rc_state = (), odometry = ()\<rparr>" "- 1500"
     "\<lparr>actuator_time_stamp = 7, motor_angles = (), motor_speeds = (),
      actuator_hs_state = [1, 2, 3, 4::nat], actuator_ls_state = [5, 6, 7, 8::nat]\<rparr>"
     "\<lparr>sensor_time_stamp = 7, bms_basic_state = ()\<rparr>"]
    time_stamp_set_checks_no_sign [of
     "\<lparr>core_time_stamp = 7, system_state = (), motion_state = (), light_state = (),
      motion_mode_state = (), rc_state = (), odometry = ()\<rparr>" 9223372036854
     "\<lparr>actuator_time_stamp = 7, motor_angles = (), motor_speeds = (),
      actuator_hs_state = [1, 2, 3, 4::nat], actuator_ls_state = [5, 6, 7, 8::nat]\<rparr>"
     "\<lparr>sensor_time_stamp = 7, bms_basic_state = ()\<rparr>"]
  by simp

text \<open>
  The claim as it was stated, for every integer including every negative one: -2^63 - 1
  does not convert to \<open>long long\<close> and the setter raises \<open>TypeError\<close>, leaving the record
  as it was; -9223372036855 is accepted, but the read returns 9223372036854.
\<close>

theorem time_stamp_set_checks_no_sign_counterexample:
  "core_time_stamp_set
     \<lparr>core_time_stamp = 0, system_state = (), motion_state = (), light_state = (),
      motion_mode_state = (), rc_state = (), odometry = ()\<rparr> (- 9223372036854775809) =
     (Some TypeError,
      \<lparr>core_time_stamp = 0, system_state = (), motion_state = (), light_state = (),
       motion_mode_state = (), rc_state = (), odometry = ()\<rparr>) \<and>
   fst (core_time_stamp_set
     \<lparr>core_time_stamp = 0, system_state = (), motion_state = (), light_state = (),
      motion_mode_state = (), rc_state = (), odometry = ()\<rparr> (- 9223372036855)) = None \<and>
   core_time_stamp_get (snd (core_time_stamp_set
     \<lparr>core_time_stamp = 0, system_state = (), motion_state = (), light_state = (),
      motion_mode_state = (), rc_state = (), odometry = ()\<rparr> (- 9223372036855))) =
     9223372036854"
  by (simp add: core_time_stamp_set_def core_time_stamp_get_def cast_long_long_def
      time_point_of_milliseconds_def duration_cast_milliseconds_def signed_divide_int_def)

subsection \<open>The round trip fails exactly where the tick count overflows\<close>

lemma time_point_read_back:
  "sint (duration_cast_milliseconds (time_point_of_milliseconds (word_of_int ms))) =
     ((ms * 1000000 + 2 ^ 63) mod 2 ^ 64 - 2 ^ 63) sdiv 1000000"
  by (simp only: sint_duration_cast sint_time_point_wrap)

lemma core_time_stamp_round_trip_iff:
  fixes c :: "('sys, 'mot, 'lgt, 'mm, 'rc, 'odo) RangerCoreState"
  shows "core_time_stamp_get (snd (core_time_stamp_set c ms)) = ms \<longleftrightarrow>
        - 9223372036854 \<le> ms \<and> ms \<le> 9223372036854"
proof
  assume e: "core_time_stamp_get (snd (core_time_stamp_set c ms)) = ms"
  have "- 9223372036854 \<le> core_time_stamp_get (snd (core_time_stamp_set c ms)) \<and>
        core_time_stamp_get (snd (core_time_stamp_set c ms)) \<le> 9223372036854"
    unfolding core_time_stamp_get_def by (rule duration_cast_bounds)
  then show "- 9223372036854 \<le> ms \<and> ms \<le> 9223372036854" using e by simp
next
  assume r: "- 9223372036854 \<le> ms \<and> ms \<le> 9223372036854"
  then have cl: "cast_long_long ms = Some (word_of_int ms)"
    by (simp add: cast_long_long_Some)
  show "core_time_stamp_get (snd (core_time_stamp_set c ms)) = ms"
    using r by (simp add: cl core_time_stamp_set_def core_time_stamp_get_def
        milliseconds_round_trip)
qed

lemma core_time_stamp_overflow:
  fixes c :: "('sys, 'mot, 'lgt, 'mm, 'rc, 'odo) RangerCoreState"
  assumes h: "- 9223372036854775808 \<le> ms" "ms < 9223372036854775808"
    and o: "ms * 1000000 < - 9223372036854775808 \<or> 9223372036854775808 \<le> ms * 1000000"
  shows "fst (core_time_stamp_set c ms) = None \<and>
         core_time_stamp_get (snd (core_time_stamp_set c ms)) \<noteq> ms \<and>
         core_time_stamp_get (snd (core_time_stamp_set c ms)) =
           ((ms * 1000000 + 2 ^ 63) mod 2 ^ 64 - 2 ^ 63) sdiv 1000000"
proof -
  have cl: "cast_long_long ms = Some (word_of_int ms)"
    using h by (simp add: cast_long_long_Some)
  have out: "\<not> (- 9223372036854 \<le> ms \<and> ms \<le> 9223372036854)" using o by auto
  have v: "core_time_stamp_get (snd (core_time_stamp_set c ms)) =
          ((ms * 1000000 + 2 ^ 63) mod 2 ^ 64 - 2 ^ 63) sdiv 1000000"
    using time_point_read_back[of ms]
    by (simp add: cl core_time_stamp_set_def core_time_stamp_get_def)
  have f: "fst (core_time_stamp_set c ms) = None"
    by (simp add: cl core_time_stamp_set_def)
  show ?thesis using v f out core_time_stamp_round_trip_iff[of c ms] by blast
qed

lemma actuator_time_stamp_round_trip_iff:
  fixes a :: "('ma, 'ms, 'hs, 'ls) RangerActuatorState"
  shows "actuator_time_stamp_get (snd (actuator_time_stamp_set a ms)) = ms \<longleftrightarrow>
        - 9223372036854 \<le> ms \<and> ms \<le> 9223372036854"
proof
  assume e: "actuator_time_stamp_get (snd (actuator_time_stamp_set a ms)) = ms"
  have "- 9223372036854 \<le> actuator_time_stamp_get (snd (actuator_time_stamp_set a ms)) \<and>
        actuator_time_stamp_get (snd (actuator_time_stamp_set a ms)) \<le> 9223372036854"
    unfolding actuator_time_stamp_get_def by (rule duration_cast_bounds)
  then show "- 9223372036854 \<le> ms \<and> ms \<le> 9223372036854" using e by simp
next
  assume r: "- 9223372036854 \<le> ms \<and> ms \<le> 9223372036854"
  then have cl: "cast_long_long ms = Some (word_of_int ms)"
    by (simp add: cast_long_long_Some)
  show "actuator_time_stamp_get (snd (actuator_time_stamp_set a ms)) = ms"
    using r by (simp add: cl actuator_time_stamp_set_def actuator_time_stamp_get_def
        milliseconds_round_trip)
qed

lemma actuator_time_stamp_overflow:
  fixes a :: "('ma, 'ms, 'hs, 'ls) RangerActuatorState"
  assumes h: "- 9223372036854775808 \<le> ms" "ms < 9223372036854775808"
    and o: "ms * 1000000 < - 9223372036854775808 \<or> 9223372036854775808 \<le> ms * 1000000"
  shows "fst (actuator_time_stamp_set a ms) = None \<and>
         actuator_time_stamp_get (snd (actuator_time_stamp_set a ms)) \<noteq> ms \<and>
         actuator_time_stamp_get (snd (actuator_time_stamp_set a ms)) =
           ((ms * 1000000 + 2 ^ 63) mod 2 ^ 64 - 2 ^ 63) sdiv 1000000"
proof -
  have cl: "cast_long_long ms = Some (word_of_int ms)"
    using h by (simp add: cast_long_long_Some)
  have out: "\<not> (- 9223372036854 \<le> ms \<and> ms \<le> 9223372036854)" using o by auto
  have v: "actuator_time_stamp_get (snd (actuator_time_stamp_set a ms)) =
          ((ms * 1000000 + 2 ^ 63) mod 2 ^ 64 - 2 ^ 63) sdiv 1000000"
    using time_point_read_back[of ms]
    by (simp add: cl actuator_time_stamp_set_def actuator_time_stamp_get_def)
  have f: "fst (actuator_time_stamp_set a ms) = None"
    by (simp add: cl actuator_time_stamp_set_def)
  show ?thesis using v f out actuator_time_stamp_round_trip_iff[of a ms] by blast
qed

lemma sensor_time_stamp_round_trip_iff:
  fixes b :: "'bms RangerCommonSensorState"
  shows "sensor_time_stamp_get (snd (sensor_time_stamp_set b ms)) = ms \<longleftrightarrow>
        - 9223372036854 \<le> ms \<and> ms \<le> 9223372036854"
proof
  assume e: "sensor_time_stamp_get (snd (sensor_time_stamp_set b ms)) = ms"
  have "- 9223372036854 \<le> sensor_time_stamp_get (snd (sensor_time_stamp_set b ms)) \<and>
        sensor_time_stamp_get (snd (sensor_time_stamp_set b ms)) \<le> 9223372036854"
    unfolding sensor_time_stamp_get_def by (rule duration_cast_bounds)
  then show "- 9223372036854 \<le> ms \<and> ms \<le> 9223372036854" using e by simp
next
  assume r: "- 9223372036854 \<le> ms \<and> ms \<le> 9223372036854"
  then have cl: "cast_long_long ms = Some (word_of_int ms)"
    by (simp add: cast_long_long_Some)
  show "sensor_time_stamp_get (snd (sensor_time_stamp_set b ms)) = ms"
    using r by (simp add: cl sensor_time_stamp_set_def sensor_time_stamp_get_def
        milliseconds_round_trip)
qed

lemma sensor_time_stamp_overflow:
  fixes b :: "'bms RangerCommonSensorState"
  assumes h: "- 9223372036854775808 \<le> ms" "ms < 9223372036854775808"
    and o: "ms * 1000000 < - 9223372036854775808 \<or> 9223372036854775808 \<le> ms * 1000000"
  shows "fst (sensor_time_stamp_set b ms) = None \<and>
         sensor_time_stamp_get (snd (sensor_time_stamp_set b ms)) \<noteq> ms \<and>
         sensor_time_stamp_get (snd (sensor_time_stamp_set b ms)) =
           ((ms * 1000000 + 2 ^ 63) mod 2 ^ 64 - 2 ^ 63) sdiv 1000000"
proof -
  have cl: "cast_long_long ms = Some (word_of_int ms)"
    using h by (simp add: cast_long_long_Some)
  have out: "\<not> (- 9223372036854 \<le> ms \<and> ms \<le> 9223372036854)" using o by auto
  have v: "sensor_time_stamp_get (snd (sensor_time_stamp_set b ms)) =
          ((ms * 1000000 + 2 ^ 63) mod 2 ^ 64 - 2 ^ 63) sdiv 1000000"
    using time_point_read_back[of ms]
    by (simp add: cl sensor_time_stamp_set_def sensor_time_stamp_get_def)
  have f: "fst (sensor_time_stamp_set b ms) = None"
    by (simp add: cl sensor_time_stamp_set_def)
  show ?thesis using v f out sensor_time_stamp_round_trip_iff[of b ms] by blast
qed

text \<open>
  Claim C10. For each of the three aggregate records, set-then-get of \<open>time_stamp\<close> returns
  \<open>ms\<close> exactly when \<open>-9223372036854 \<le> ms \<le> 9223372036854\<close>, the range in which
  \<open>ms * 1000000\<close> fits the clock's signed 64-bit nanosecond count. For an \<open>ms\<close> that the
  setter accepts and whose nanosecond count overflows, the read does not return \<open>ms\<close> but
  the count wrapped modulo 2^64 into the signed range, divided by 1000000 with truncation.
\<close>

theorem time_stamp_round_trip_only_in_range:
  fixes c :: "('sys, 'mot, 'lgt, 'mm, 'rc, 'odo) RangerCoreState"
    and a :: "('ma, 'ms, 'hs, 'ls) RangerActuatorState"
    and b :: "'bms RangerCommonSensorState"
  shows
    "(core_time_stamp_get (snd (core_time_stamp_set c ms)) = ms \<longleftrightarrow>
        - 9223372036854 \<le> ms \<and> ms \<le> 9223372036854) \<and>
     (actuator_time_stamp_get (snd (actuator_time_stamp_set a ms)) = ms \<longleftrightarrow>
        - 9223372036854 \<le> ms \<and> ms \<le> 9223372036854) \<and>
     (sensor_time_stamp_get (snd (sensor_time_stamp_set b ms)) = ms \<longleftrightarrow>
        - 9223372036854 \<le> ms \<and> ms \<le> 9223372036854) \<and>
     (- 9223372036854775808 \<le> ms \<and> ms < 9223372036854775808 \<and>
      (ms * 1000000 < - 9223372036854775808 \<or> 9223372036854775808 \<le> ms * 1000000) \<longrightarrow>
        fst (core_time_stamp_set c ms) = None \<and>
        core_time_stamp_get (snd (core_time_stamp_set c ms)) \<noteq> ms \<and>
        core_time_stamp_get (snd (core_time_stamp_set c ms)) =
          ((ms * 1000000 + 2 ^ 63) mod 2 ^ 64 - 2 ^ 63) sdiv 1000000 \<and>
        fst (actuator_time_stamp_set a ms) = None \<and>
        actuator_time_stamp_get (snd (actuator_time_stamp_set a ms)) \<noteq> ms \<and>
        actuator_time_stamp_get (snd (actuator_time_stamp_set a ms)) =
          ((ms * 1000000 + 2 ^ 63) mod 2 ^ 64 - 2 ^ 63) sdiv 1000000 \<and>
        fst (sensor_time_stamp_set b ms) = None \<and>
        sensor_time_stamp_get (snd (sensor_time_stamp_set b ms)) \<noteq> ms \<and>
        sensor_time_stamp_get (snd (sensor_time_stamp_set b ms)) =
          ((ms * 1000000 + 2 ^ 63) mod 2 ^ 64 - 2 ^ 63) sdiv 1000000)"
  using core_time_stamp_round_trip_iff[of c ms] actuator_time_stamp_round_trip_iff[of a ms]
    sensor_time_stamp_round_trip_iff[of b ms]
    core_time_stamp_overflow[of ms c] actuator_time_stamp_overflow[of ms a]
    sensor_time_stamp_overflow[of ms b]
  by blast

theorem time_stamp_round_trip_only_in_range_witness:
  "fst (core_time_stamp_set
     \<lparr>core_time_stamp = 3999999, system_state = (), motion_state = (), light_state = (),
      motion_mode_state = (), rc_state = (), odometry = ()\<rparr> 9223372036856) = None \<and>
   core_time_stamp_get (snd (core_time_stamp_set
     \<lparr>core_time_stamp = 3999999, system_state = (), motion_state = (), light_state = (),
      motion_mode_state = (), rc_state = (), odometry = ()\<rparr> 9223372036856)) \<noteq> 9223372036856 \<and>
   core_time_stamp_get (snd (core_time_stamp_set
     \<lparr>core_time_stamp = 3999999, system_state = (), motion_state = (), light_state = (),
      motion_mode_state = (), rc_state = (), odometry = ()\<rparr> 9223372036856)) = - 9223372036853 \<and>
   actuator_time_stamp_get (snd (actuator_time_stamp_set
     \<lparr>actuator_time_stamp = 3999999, motor_angles = (), motor_speeds = (),
      actuator_hs_state = [1, 2, 3, 4::nat], actuator_ls_state = [5, 6, 7, 8::nat]\<rparr> 9223372036856)) = - 9223372036853 \<and>
   sensor_time_stamp_get (snd (sensor_time_stamp_set
     \<lparr>sensor_time_stamp = 3999999, bms_basic_state = ()\<rparr> 9223372036856)) = - 9223372036853"
  using time_stamp_round_trip_only_in_range [of
     "\<lparr>core_time_stamp = 3999999, system_state = (), motion_state = (), light_state = (),
      motion_mode_state = (), rc_state = (), odometry = ()\<rparr>" 9223372036856
     "\<lparr>actuator_time_stamp = 3999999, motor_angles = (), motor_speeds = (),
      actuator_hs_state = [1, 2, 3, 4::nat], actuator_ls_state = [5, 6, 7, 8::nat]\<rparr>"
     "\<lparr>sensor_time_stamp = 3999999, bms_basic_state = ()\<rparr>"]
  by (simp add: signed_divide_int_def)

subsection \<open>The loop of the actuator setters\<close>

lemma assign_slots_length:
  "length (snd (assign_slots cast i l arr)) = length arr"
proof (induction cast i l arr rule: assign_slots.induct)
  case (1 cast i l arr)
  show ?case
    using "1.IH" by (subst assign_slots.simps) (simp split: option.splits)
qed

text \<open>The loop runs to the end when every remaining element converts.\<close>

lemma assign_slots_ok:
  assumes "4 \<le> length l" "\<forall>j. i \<le> j \<and> j < 4 \<longrightarrow> cast (l ! j) \<noteq> None"
  shows "fst (assign_slots cast i l arr) = None"
  using assms
proof (induction cast i l arr rule: assign_slots.induct)
  case (1 cast i l arr)
  show ?case
  proof (cases "i < 4")
    case False
    then show ?thesis by (subst assign_slots.simps) simp
  next
    case True
    then obtain m where m: "cast (l ! i) = Some m" using "1.prems" by auto
    have il: "i < length l" using True "1.prems" by simp
    have "fst (assign_slots cast (Suc i) l (arr[i := m])) = None"
      using "1.IH"[OF True il m] "1.prems" by simp
    then show ?thesis using True il m by (subst assign_slots.simps) simp
  qed
qed

text \<open>The loop stops at the first element that does not convert: the slots before it
  are written, the slots from it on are as before.\<close>

lemma assign_slots_fail:
  assumes "4 \<le> length l" "i \<le> k" "k < 4" "cast (l ! k) = None"
    "\<forall>j. i \<le> j \<and> j < k \<longrightarrow> cast (l ! j) \<noteq> None"
  shows "\<exists>arr'. assign_slots cast i l arr = (Some CastError, arr') \<and>
           length arr' = length arr \<and>
           (\<forall>j. j < i \<or> k \<le> j \<longrightarrow> arr' ! j = arr ! j) \<and>
           (\<forall>j. i \<le> j \<and> j < k \<and> j < length arr \<longrightarrow> cast (l ! j) = Some (arr' ! j))"
  using assms
proof (induction cast i l arr rule: assign_slots.induct)
  case (1 cast i l arr)
  have i4: "i < 4" and il: "i < length l" using "1.prems" by simp_all
  show ?case
  proof (cases "i = k")
    case True
    then have "assign_slots cast i l arr = (Some CastError, arr)"
      using i4 il "1.prems" by (subst assign_slots.simps) simp
    then show ?thesis using True by auto
  next
    case False
    then have ik: "i < k" using "1.prems" by simp
    then obtain m where m: "cast (l ! i) = Some m" using "1.prems" by auto
    from "1.IH"[OF i4 il m] "1.prems" ik
    obtain arr' where a: "assign_slots cast (Suc i) l (arr[i := m]) = (Some CastError, arr')"
      "length arr' = length (arr[i := m])"
      "\<forall>j. j < Suc i \<or> k \<le> j \<longrightarrow> arr' ! j = arr[i := m] ! j"
      "\<forall>j. Suc i \<le> j \<and> j < k \<and> j < length (arr[i := m]) \<longrightarrow> cast (l ! j) = Some (arr' ! j)"
      by auto
    have e: "assign_slots cast i l arr = (Some CastError, arr')"
      using i4 il m a(1) by (subst assign_slots.simps) simp
    have "\<forall>j. j < i \<or> k \<le> j \<longrightarrow> arr' ! j = arr ! j"
      using a(3) ik by auto
    moreover have "\<forall>j. i \<le> j \<and> j < k \<and> j < length arr \<longrightarrow> cast (l ! j) = Some (arr' ! j)"
    proof (intro allI impI)
      fix j assume j: "i \<le> j \<and> j < k \<and> j < length arr"
      show "cast (l ! j) = Some (arr' ! j)"
      proof (cases "j = i")
        case True
        then have "arr' ! j = m" using a(3) j by simp
        then show ?thesis using m True by simp
      next
        case False
        then show ?thesis using a(4) j by simp
      qed
    qed
    ultimately show ?thesis using e a(2) by simp
  qed
qed

lemma assign_slots_all:
  assumes "length ms = 4" "length arr = 4" "\<And>m. cast (wrap m) = Some m"
  shows "assign_slots cast 0 (map wrap ms) arr = (None, ms)"
proof -
  obtain a b c d where ms: "ms = [a, b, c, d]"
    using assms(1) by (auto simp: length_Suc_conv numeral_eq_Suc)
  obtain p q r s where arr: "arr = [p, q, r, s]"
    using assms(2) by (auto simp: length_Suc_conv numeral_eq_Suc)
  show ?thesis
    unfolding ms arr by (simp add: assign_slots.simps assms(3))
qed

lemma fst_actuator_hs_state_set:
  "length l = 4 \<Longrightarrow> fst (actuator_hs_state_set s l) =
     fst (assign_slots cast_ActuatorHSStateMessage 0 l (actuator_hs_state s))"
  by (simp add: actuator_hs_state_set_def case_prod_beta)

lemma fst_actuator_ls_state_set:
  "length l = 4 \<Longrightarrow> fst (actuator_ls_state_set s l) =
     fst (assign_slots cast_ActuatorLSStateMessage 0 l (actuator_ls_state s))"
  by (simp add: actuator_ls_state_set_def case_prod_beta)

lemma assign_slots_fails_iff:
  assumes "length l = 4"
  shows "fst (assign_slots cast 0 l arr) \<noteq> None \<longleftrightarrow> (\<exists>k<4. cast (l ! k) = None)"
proof
  assume f: "fst (assign_slots cast 0 l arr) \<noteq> None"
  show "\<exists>k<4. cast (l ! k) = None"
  proof (rule ccontr)
    assume "\<not> (\<exists>k<4. cast (l ! k) = None)"
    then have "\<forall>j. 0 \<le> j \<and> j < 4 \<longrightarrow> cast (l ! j) \<noteq> None" by simp
    then have "fst (assign_slots cast 0 l arr) = None"
      using assms by (intro assign_slots_ok) simp_all
    then show False using f by simp
  qed
next
  assume "\<exists>k<4. cast (l ! k) = None"
  then obtain k0 where k0: "k0 < 4 \<and> cast (l ! k0) = None" by auto
  define k where "k = (LEAST k. k < 4 \<and> cast (l ! k) = None)"
  have k: "k < 4 \<and> cast (l ! k) = None"
    unfolding k_def using k0 by (rule LeastI)
  have least: "\<forall>j. 0 \<le> j \<and> j < k \<longrightarrow> cast (l ! j) \<noteq> None"
  proof (intro allI impI)
    fix j assume j: "0 \<le> j \<and> j < k"
    show "cast (l ! j) \<noteq> None"
    proof
      assume "cast (l ! j) = None"
      then have "j < 4 \<and> cast (l ! j) = None" using j k by simp
      then have "k \<le> j" unfolding k_def by (rule Least_le)
      then show False using j by simp
    qed
  qed
  from assign_slots_fail[of l 0 k cast arr] assms k least
  obtain arr' where "assign_slots cast 0 l arr = (Some CastError, arr')" by auto
  then show "fst (assign_slots cast 0 l arr) \<noteq> None" by simp
qed

subsection \<open>The actuator setters check the length of the list\<close>

text \<open>
  Claim C1. For every actuator state record and every list whose length is not 4, writing
  the list to \<open>actuator_hs_state\<close> or to \<open>actuator_ls_state\<close> raises the runtime error
  "List size must be 4". A list of four high-speed actuator messages written to
  \<open>actuator_hs_state\<close>, and a list of four low-speed actuator messages written to
  \<open>actuator_ls_state\<close>, is accepted; on a record whose array has its four slots, the
  array then holds exactly the four messages.
\<close>

theorem actuator_state_set_length_check:
  fixes s :: "('ma, 'ms, 'hs, 'ls) RangerActuatorState"
  shows
    "(length l \<noteq> 4 \<longrightarrow>
        fst (actuator_hs_state_set s l) = Some (RuntimeError ''List size must be 4'') \<and>
        fst (actuator_ls_state_set s l) = Some (RuntimeError ''List size must be 4'')) \<and>
     (length hs = 4 \<longrightarrow> fst (actuator_hs_state_set s (map PyActuatorHS hs)) = None) \<and>
     (length ls = 4 \<longrightarrow> fst (actuator_ls_state_set s (map PyActuatorLS ls)) = None) \<and>
     (length hs = 4 \<and> length (actuator_hs_state s) = 4 \<longrightarrow>
        actuator_hs_state_set s (map PyActuatorHS hs) = (None, s\<lparr>actuator_hs_state := hs\<rparr>)) \<and>
     (length ls = 4 \<and> length (actuator_ls_state s) = 4 \<longrightarrow>
        actuator_ls_state_set s (map PyActuatorLS ls) = (None, s\<lparr>actuator_ls_state := ls\<rparr>))"
proof -
  have rej: "fst (actuator_hs_state_set s l) = Some (RuntimeError ''List size must be 4'') \<and>
        fst (actuator_ls_state_set s l) = Some (RuntimeError ''List size must be 4'')"
    if "length l \<noteq> 4"
    using that by (simp add: actuator_hs_state_set_def actuator_ls_state_set_def)
  have acc_hs: "fst (actuator_hs_state_set s (map PyActuatorHS hs)) = None" if h: "length hs = 4"
  proof -
    have "fst (assign_slots cast_ActuatorHSStateMessage 0
            (map PyActuatorHS hs :: ('hs, 'ls) py_object list) (actuator_hs_state s)) = None"
      by (rule assign_slots_ok) (use h in simp_all)
    then show ?thesis using h by (simp add: fst_actuator_hs_state_set)
  qed
  have acc_ls: "fst (actuator_ls_state_set s (map PyActuatorLS ls)) = None" if h: "length ls = 4"
  proof -
    have "fst (assign_slots cast_ActuatorLSStateMessage 0
            (map PyActuatorLS ls :: ('hs, 'ls) py_object list) (actuator_ls_state s)) = None"
      by (rule assign_slots_ok) (use h in simp_all)
    then show ?thesis using h by (simp add: fst_actuator_ls_state_set)
  qed
  have st_hs: "actuator_hs_state_set s (map PyActuatorHS hs) = (None, s\<lparr>actuator_hs_state := hs\<rparr>)"
    if h: "length hs = 4" "length (actuator_hs_state s) = 4"
    using h assign_slots_all[of hs "actuator_hs_state s" cast_ActuatorHSStateMessage
        "PyActuatorHS :: 'hs \<Rightarrow> ('hs, 'ls) py_object"]
    by (simp add: actuator_hs_state_set_def)
  have st_ls: "actuator_ls_state_set s (map PyActuatorLS ls) = (None, s\<lparr>actuator_ls_state := ls\<rparr>)"
    if h: "length ls = 4" "length (actuator_ls_state s) = 4"
    using h assign_slots_all[of ls "actuator_ls_state s" cast_ActuatorLSStateMessage
        "PyActuatorLS :: 'ls \<Rightarrow> ('hs, 'ls) py_object"]
    by (simp add: actuator_ls_state_set_def)
  show ?thesis using rej acc_hs acc_ls st_hs st_ls by blast
qed

theorem actuator_state_set_length_check_witness:
  "fst (actuator_hs_state_set
     \<lparr>actuator_time_stamp = 0, motor_angles = (), motor_speeds = (),
      actuator_hs_state = [1, 2, 3, 4::nat], actuator_ls_state = [5, 6, 7, 8::nat]\<rparr>
     [PyActuatorHS 10, PyActuatorHS 20, PyActuatorHS 30]) =
     Some (RuntimeError ''List size must be 4'') \<and>
   fst (actuator_ls_state_set
     \<lparr>actuator_time_stamp = 0, motor_angles = (), motor_speeds = (),
      actuator_hs_state = [1, 2, 3, 4::nat], actuator_ls_state = [5, 6, 7, 8::nat]\<rparr>
     [PyActuatorHS 10, PyActuatorHS 20, PyActuatorHS 30]) =
     Some (RuntimeError ''List size must be 4'') \<and>
   actuator_hs_state_set
     \<lparr>actuator_time_stamp = 0, motor_angles = (), motor_speeds = (),
      actuator_hs_state = [1, 2, 3, 4::nat], actuator_ls_state = [5, 6, 7, 8::nat]\<rparr>
     [PyActuatorHS 10, PyActuatorHS 20, PyActuatorHS 30, PyActuatorHS 40] =
     (None, \<lparr>actuator_time_stamp = 0, motor_angles = (), motor_speeds = (),
      actuator_hs_state = [10, 20, 30, 40], actuator_ls_state = [5, 6, 7, 8]\<rparr>) \<and>
   actuator_ls_state_set
     \<lparr>actuator_time_stamp = 0, motor_angles = (), motor_speeds = (),
      actuator_hs_state = [1, 2, 3, 4::nat], actuator_ls_state = [5, 6, 7, 8::nat]\<rparr>
     [PyActuatorLS 50, PyActuatorLS 60, PyActuatorLS 70, PyActuatorLS 80] =
     (None, \<lparr>actuator_time_stamp = 0, motor_angles = (), motor_speeds = (),
      actuator_hs_state = [1, 2, 3, 4], actuator_ls_state = [50, 60, 70, 80]\<rparr>)"
  using actuator_state_set_length_check [of
     "[PyActuatorHS 10, PyActuatorHS 20, PyActuatorHS 30]"
     "\<lparr>actuator_time_stamp = 0, motor_angles = (), motor_speeds = (),
      actuator_hs_state = [1, 2, 3, 4::nat], actuator_ls_state = [5, 6, 7, 8::nat]\<rparr>"
     "[10, 20, 30, 40]" "[50, 60, 70, 80]"]
  by simp

subsection \<open>What a failed write to an actuator array leaves behind\<close>

text \<open>
  Claim C2, amended. A write to \<open>actuator_hs_state\<close> or \<open>actuator_ls_state\<close> fails exactly
  when the list's length is not 4 or one of its four elements does not convert to the
  actuator message type. A write that fails on the length alters nothing. A write that
  fails on an element raises at the first element \<open>k\<close> that does not convert: the slots
  from \<open>k\<close> on, and every other field of the record, are unaltered, and the slots before
  \<open>k\<close> hold the converted elements of the list.
\<close>

theorem failed_actuator_write_effect:
  fixes s :: "('ma, 'ms, 'hs, 'ls) RangerActuatorState"
  shows
    "(length l \<noteq> 4 \<longrightarrow>
        actuator_hs_state_set s l = (Some (RuntimeError ''List size must be 4''), s) \<and>
        actuator_ls_state_set s l = (Some (RuntimeError ''List size must be 4''), s)) \<and>
     (fst (actuator_hs_state_set s l) \<noteq> None \<longleftrightarrow>
        length l \<noteq> 4 \<or> (\<exists>k<4. cast_ActuatorHSStateMessage (l ! k) = None)) \<and>
     (fst (actuator_ls_state_set s l) \<noteq> None \<longleftrightarrow>
        length l \<noteq> 4 \<or> (\<exists>k<4. cast_ActuatorLSStateMessage (l ! k) = None)) \<and>
     (length l = 4 \<and> k < 4 \<and> cast_ActuatorHSStateMessage (l ! k) = None \<and>
      (\<forall>j. j < k \<longrightarrow> cast_ActuatorHSStateMessage (l ! j) \<noteq> None) \<longrightarrow>
        (\<exists>arr. actuator_hs_state_set s l = (Some CastError, s\<lparr>actuator_hs_state := arr\<rparr>) \<and>
           length arr = length (actuator_hs_state s) \<and>
           (\<forall>j. k \<le> j \<longrightarrow> arr ! j = actuator_hs_state s ! j) \<and>
           (\<forall>j. j < k \<and> j < length arr \<longrightarrow>
                cast_ActuatorHSStateMessage (l ! j) = Some (arr ! j)))) \<and>
     (length l = 4 \<and> k < 4 \<and> cast_ActuatorLSStateMessage (l ! k) = None \<and>
      (\<forall>j. j < k \<longrightarrow> cast_ActuatorLSStateMessage (l ! j) \<noteq> None) \<longrightarrow>
        (\<exists>arr. actuator_ls_state_set s l = (Some CastError, s\<lparr>actuator_ls_state := arr\<rparr>) \<and>
           length arr = length (actuator_ls_state s) \<and>
           (\<forall>j. k \<le> j \<longrightarrow> arr ! j = actuator_ls_state s ! j) \<and>
           (\<forall>j. j < k \<and> j < length arr \<longrightarrow>
                cast_ActuatorLSStateMessage (l ! j) = Some (arr ! j))))"
proof -
  have len: "actuator_hs_state_set s l = (Some (RuntimeError ''List size must be 4''), s) \<and>
        actuator_ls_state_set s l = (Some (RuntimeError ''List size must be 4''), s)"
    if "length l \<noteq> 4"
    using that by (simp add: actuator_hs_state_set_def actuator_ls_state_set_def)
  have f_hs: "fst (actuator_hs_state_set s l) \<noteq> None \<longleftrightarrow>
        length l \<noteq> 4 \<or> (\<exists>k<4. cast_ActuatorHSStateMessage (l ! k) = None)"
  proof (cases "length l = 4")
    case True
    then show ?thesis
      using assign_slots_fails_iff[OF True, of cast_ActuatorHSStateMessage "actuator_hs_state s"]
      by (simp only: fst_actuator_hs_state_set[OF True]) simp
  next
    case False
    then show ?thesis by (simp add: actuator_hs_state_set_def)
  qed
  have f_ls: "fst (actuator_ls_state_set s l) \<noteq> None \<longleftrightarrow>
        length l \<noteq> 4 \<or> (\<exists>k<4. cast_ActuatorLSStateMessage (l ! k) = None)"
  proof (cases "length l = 4")
    case True
    then show ?thesis
      using assign_slots_fails_iff[OF True, of cast_ActuatorLSStateMessage "actuator_ls_state s"]
      by (simp only: fst_actuator_ls_state_set[OF True]) simp
  next
    case False
    then show ?thesis by (simp add: actuator_ls_state_set_def)
  qed
  have p_hs: "\<exists>arr. actuator_hs_state_set s l = (Some CastError, s\<lparr>actuator_hs_state := arr\<rparr>) \<and>
           length arr = length (actuator_hs_state s) \<and>
           (\<forall>j. k \<le> j \<longrightarrow> arr ! j = actuator_hs_state s ! j) \<and>
           (\<forall>j. j < k \<and> j < length arr \<longrightarrow>
                cast_ActuatorHSStateMessage (l ! j) = Some (arr ! j))"
    if h: "length l = 4" "k < 4" "cast_ActuatorHSStateMessage (l ! k) = None"
      "\<forall>j. j < k \<longrightarrow> cast_ActuatorHSStateMessage (l ! j) \<noteq> None"
  proof -
    from assign_slots_fail[of l 0 k cast_ActuatorHSStateMessage "actuator_hs_state s"] h
    obtain arr where a:
      "assign_slots cast_ActuatorHSStateMessage 0 l (actuator_hs_state s) = (Some CastError, arr)"
      "length arr = length (actuator_hs_state s)"
      "\<forall>j. j < 0 \<or> k \<le> j \<longrightarrow> arr ! j = actuator_hs_state s ! j"
      "\<forall>j. 0 \<le> j \<and> j < k \<and> j < length (actuator_hs_state s) \<longrightarrow>
           cast_ActuatorHSStateMessage (l ! j) = Some (arr ! j)"
      by auto
    have "actuator_hs_state_set s l = (Some CastError, s\<lparr>actuator_hs_state := arr\<rparr>)"
      using h(1) a(1) by (simp add: actuator_hs_state_set_def)
    then show ?thesis using a(2) a(3) a(4) by auto
  qed
  have p_ls: "\<exists>arr. actuator_ls_state_set s l = (Some CastError, s\<lparr>actuator_ls_state := arr\<rparr>) \<and>
           length arr = length (actuator_ls_state s) \<and>
           (\<forall>j. k \<le> j \<longrightarrow> arr ! j = actuator_ls_state s ! j) \<and>
           (\<forall>j. j < k \<and> j < length arr \<longrightarrow>
                cast_ActuatorLSStateMessage (l ! j) = Some (arr ! j))"
    if h: "length l = 4" "k < 4" "cast_ActuatorLSStateMessage (l ! k) = None"
      "\<forall>j. j < k \<longrightarrow> cast_ActuatorLSStateMessage (l ! j) \<noteq> None"
  proof -
    from assign_slots_fail[of l 0 k cast_ActuatorLSStateMessage "actuator_ls_state s"] h
    obtain arr where a:
      "assign_slots cast_ActuatorLSStateMessage 0 l (actuator_ls_state s) = (Some CastError, arr)"
      "length arr = length (actuator_ls_state s)"
      "\<forall>j. j < 0 \<or> k \<le> j \<longrightarrow> arr ! j = actuator_ls_state s ! j"
      "\<forall>j. 0 \<le> j \<and> j < k \<and> j < length (actuator_ls_state s) \<longrightarrow>
           cast_ActuatorLSStateMessage (l ! j) = Some (arr ! j)"
      by auto
    have "actuator_ls_state_set s l = (Some CastError, s\<lparr>actuator_ls_state := arr\<rparr>)"
      using h(1) a(1) by (simp add: actuator_ls_state_set_def)
    then show ?thesis using a(2) a(3) a(4) by auto
  qed
  show ?thesis
    apply (intro conjI impI)
    subgoal using len by blast
    subgoal using len by blast
    subgoal by (rule f_hs)
    subgoal by (rule f_ls)
    subgoal by (rule p_hs) blast+
    subgoal by (rule p_ls) blast+
    done
qed

theorem failed_actuator_write_effect_witness:
  "length [PyActuatorHS 10, PyNone, PyActuatorHS 30, PyInt 40 :: (nat, nat) py_object] = 4 \<and>
   cast_ActuatorHSStateMessage
     ([PyActuatorHS 10, PyNone, PyActuatorHS 30, PyInt 40 :: (nat, nat) py_object] ! 1) = None \<and>
   actuator_hs_state_set
     \<lparr>actuator_time_stamp = 0, motor_angles = (), motor_speeds = (),
      actuator_hs_state = [1, 2, 3, 4::nat], actuator_ls_state = [5, 6, 7, 8::nat]\<rparr>
     [PyActuatorHS 10, PyNone, PyActuatorHS 30, PyInt 40] =
     (Some CastError,
      \<lparr>actuator_time_stamp = 0, motor_angles = (), motor_speeds = (),
       actuator_hs_state = [10, 2, 3, 4], actuator_ls_state = [5, 6, 7, 8]\<rparr>) \<and>
   actuator_ls_state_set
     \<lparr>actuator_time_stamp = 0, motor_angles = (), motor_speeds = (),
      actuator_hs_state = [1, 2, 3, 4::nat], actuator_ls_state = [5, 6, 7, 8::nat]\<rparr>
     [PyActuatorHS 10, PyNone, PyActuatorHS 30, PyInt 40] =
     (Some CastError,
      \<lparr>actuator_time_stamp = 0, motor_angles = (), motor_speeds = (),
       actuator_hs_state = [1, 2, 3, 4], actuator_ls_state = [5, 6, 7, 8]\<rparr>)"
  using failed_actuator_write_effect [of
     "[PyActuatorHS 10, PyNone, PyActuatorHS 30, PyInt 40]"
     "\<lparr>actuator_time_stamp = 0, motor_angles = (), motor_speeds = (),
      actuator_hs_state = [1, 2, 3, 4::nat], actuator_ls_state = [5, 6, 7, 8::nat]\<rparr>" 1]
  by (simp add: actuator_hs_state_set_def actuator_ls_state_set_def assign_slots.simps)

text \<open>
  The claim as it was stated, all-or-nothing: a list of length 4 whose last element is
  \<open>None\<close> makes the write fail with a cast error after slots 0, 1 and 2 have been
  overwritten.
\<close>

theorem failed_actuator_write_counterexample:
  "fst (actuator_hs_state_set
     \<lparr>actuator_time_stamp = 0, motor_angles = (), motor_speeds = (),
      actuator_hs_state = [1, 2, 3, 4::nat], actuator_ls_state = [5, 6, 7, 8::nat]\<rparr>
     [PyActuatorHS 10, PyActuatorHS 20, PyActuatorHS 30, PyNone]) = Some CastError \<and>
   actuator_hs_state (snd (actuator_hs_state_set
     \<lparr>actuator_time_stamp = 0, motor_angles = (), motor_speeds = (),
      actuator_hs_state = [1, 2, 3, 4::nat], actuator_ls_state = [5, 6, 7, 8::nat]\<rparr>
     [PyActuatorHS 10, PyActuatorHS 20, PyActuatorHS 30, PyNone])) = [10, 20, 30, 4] \<and>
   snd (actuator_hs_state_set
     \<lparr>actuator_time_stamp = 0, motor_angles = (), motor_speeds = (),
      actuator_hs_state = [1, 2, 3, 4::nat], actuator_ls_state = [5, 6, 7, 8::nat]\<rparr>
     [PyActuatorHS 10, PyActuatorHS 20, PyActuatorHS 30, PyNone]) \<noteq>
     \<lparr>actuator_time_stamp = 0, motor_angles = (), motor_speeds = (),
      actuator_hs_state = [1, 2, 3, 4::nat], actuator_ls_state = [5, 6, 7, 8::nat]\<rparr>"
  by (simp add: actuator_hs_state_set_def assign_slots.simps)

subsection \<open>The actuator arrays keep their four slots\<close>

lemma RangerActuatorState_init_wf:
  "RangerActuatorState_wf (RangerActuatorState_init ma0 ms0 hs0 ls0)"
  by (simp add: RangerActuatorState_wf_def RangerActuatorState_init_def)

lemma apply_actuator_write_wf:
  assumes "RangerActuatorState_wf s"
  shows "RangerActuatorState_wf (apply_actuator_write w s)"
proof (cases w)
  case (WriteTimeStamp ms)
  then show ?thesis
    using assms
    by (simp add: RangerActuatorState_wf_def actuator_time_stamp_set_def split: option.splits)
next
  case (WriteMotorAngles v)
  then show ?thesis using assms by (simp add: RangerActuatorState_wf_def)
next
  case (WriteMotorSpeeds v)
  then show ?thesis using assms by (simp add: RangerActuatorState_wf_def)
next
  case (WriteActuatorHS l)
  then show ?thesis
    using assms assign_slots_length[of cast_ActuatorHSStateMessage 0 l "actuator_hs_state s"]
    by (simp add: RangerActuatorState_wf_def actuator_hs_state_set_def case_prod_beta)
next
  case (WriteActuatorLS l)
  then show ?thesis
    using assms assign_slots_length[of cast_ActuatorLSStateMessage 0 l "actuator_ls_state s"]
    by (simp add: RangerActuatorState_wf_def actuator_ls_state_set_def case_prod_beta)
qed

lemma fold_apply_actuator_write_wf:
  "RangerActuatorState_wf s \<Longrightarrow> RangerActuatorState_wf (fold apply_actuator_write ws s)"
  by (induction ws arbitrary: s) (simp_all add: apply_actuator_write_wf)

text \<open>
  Claim C4. On an actuator state record whose two arrays have their declared four slots,
  and in particular on a freshly constructed record, after any sequence of writes to the
  record (successful or raising), reading \<open>actuator_hs_state\<close> or \<open>actuator_ls_state\<close>
  yields a list of exactly 4 elements.
\<close>

theorem actuator_state_get_length:
  fixes s :: "('ma, 'ms, 'hs, 'ls) RangerActuatorState"
  shows
    "(RangerActuatorState_wf s \<longrightarrow>
        length (actuator_hs_state_get (fold apply_actuator_write ws s)) = 4 \<and>
        length (actuator_ls_state_get (fold apply_actuator_write ws s)) = 4) \<and>
     length (actuator_hs_state_get
       (fold apply_actuator_write ws (RangerActuatorState_init ma0 ms0 hs0 ls0))) = 4 \<and>
     length (actuator_ls_state_get
       (fold apply_actuator_write ws (RangerActuatorState_init ma0 ms0 hs0 ls0))) = 4"
proof -
  have g: "length (actuator_hs_state_get t) = 4 \<and> length (actuator_ls_state_get t) = 4"
    if "RangerActuatorState_wf t" for t :: "('ma, 'ms, 'hs, 'ls) RangerActuatorState"
    using that
    by (simp add: RangerActuatorState_wf_def actuator_slots_def
        actuator_hs_state_get_def actuator_ls_state_get_def)
  have "RangerActuatorState_wf
          (fold apply_actuator_write ws (RangerActuatorState_init ma0 ms0 hs0 ls0))"
    by (rule fold_apply_actuator_write_wf) (rule RangerActuatorState_init_wf)
  then show ?thesis using g fold_apply_actuator_write_wf by blast
qed

theorem actuator_state_get_length_witness:
  "RangerActuatorState_wf (RangerActuatorState_init () () (0::nat) (0::nat)) \<and>
   actuator_hs_state_get (fold apply_actuator_write
     [WriteActuatorHS [PyActuatorHS 10, PyNone, PyActuatorHS 30, PyActuatorHS 40],
      WriteTimeStamp 12,
      WriteActuatorLS [PyActuatorLS 5],
      WriteActuatorLS [PyActuatorLS 50, PyActuatorLS 60, PyActuatorLS 70, PyActuatorLS 80]]
     (RangerActuatorState_init () () (0::nat) (0::nat))) =
     [PyActuatorHS 10, PyActuatorHS 0, PyActuatorHS 0, PyActuatorHS 0] \<and>
   length (actuator_hs_state_get (fold apply_actuator_write
     [WriteActuatorHS [PyActuatorHS 10, PyNone, PyActuatorHS 30, PyActuatorHS 40],
      WriteTimeStamp 12,
      WriteActuatorLS [PyActuatorLS 5],
      WriteActuatorLS [PyActuatorLS 50, PyActuatorLS 60, PyActuatorLS 70, PyActuatorLS 80]]
     (RangerActuatorState_init () () (0::nat) (0::nat)))) = 4 \<and>
   length (actuator_ls_state_get (fold apply_actuator_write
     [WriteActuatorHS [PyActuatorHS 10, PyNone, PyActuatorHS 30, PyActuatorHS 40],
      WriteTimeStamp 12,
      WriteActuatorLS [PyActuatorLS 5],
      WriteActuatorLS [PyActuatorLS 50, PyActuatorLS 60, PyActuatorLS 70, PyActuatorLS 80]]
     (RangerActuatorState_init () () (0::nat) (0::nat)))) = 4"
  using actuator_state_get_length [of "RangerActuatorState_init () () (0::nat) (0::nat)"
     "[WriteActuatorHS [PyActuatorHS 10, PyNone, PyActuatorHS 30, PyActuatorHS 40],
      WriteTimeStamp 12,
      WriteActuatorLS [PyActuatorLS 5],
      WriteActuatorLS [PyActuatorLS 50, PyActuatorLS 60, PyActuatorLS 70, PyActuatorLS 80]]"
      "()" "()" 0 0]
  by (simp add: RangerActuatorState_wf_def RangerActuatorState_init_def actuator_slots_def
      actuator_hs_state_get_def actuator_ls_state_get_def
      actuator_hs_state_set_def actuator_ls_state_set_def actuator_time_stamp_set_def
      cast_long_long_def assign_slots.simps numeral_eq_Suc)

subsection \<open>Default arguments of the client API\<close>

text \<open>
  Claim C7. Omitting an optional argument is the same as passing its default: the
  constructor's \<open>is_mini_v1\<close> defaults to false, \<open>request_version\<close>'s \<open>timeout_sec\<close> to 3 and
  \<open>set_motion_command\<close>'s \<open>angular_vel\<close> to 0.0, whatever the bound C++ functions do.
\<close>

theorem default_arguments:
  "RangerRobot_init ctor None = RangerRobot_init ctor (Some False) \<and>
   RangerRobot_init ctor None = ctor False \<and>
   request_version RequestVersion' robot None = request_version RequestVersion' robot (Some 3) \<and>
   request_version RequestVersion' robot None = RequestVersion' robot 3 \<and>
   set_motion_command SetMotionCommand' robot linear_vel steer_angle None =
     set_motion_command SetMotionCommand' robot linear_vel steer_angle (Some 0) \<and>
   set_motion_command SetMotionCommand' robot linear_vel steer_angle None =
     SetMotionCommand' robot linear_vel steer_angle 0"
  by (simp add: RangerRobot_init_def request_version_def set_motion_command_def)

subsection \<open>Validation of motion commands\<close>



subsection \<open>Merging a message twice\<close>

text \<open>
  Claim C6, on the aggregator modelled from the spec. Merging the same decoded message a
  second time yields an aggregate that agrees with the result of the first merge on
  everything but the time stamps; it is the aggregate that a single merge at the later
  time yields.
\<close>

theorem merge_idempotent:
  "same_except_time_stamp (merge t2 m (merge t1 m a)) (merge t1 m a) \<and>
   merge t2 m (merge t1 m a) = merge t2 m a"
  by (cases m) (simp_all add: same_except_time_stamp_def)

theorem merge_idempotent_witness:
  "merge 9 (ActuatorHSStateMessage 2 (33::nat))
     (merge 5 (ActuatorHSStateMessage 2 33)
        \<lparr>core = \<lparr>core_time_stamp = 1, system_state = (), motion_state = (), light_state = (),
                  motion_mode_state = (), rc_state = (), odometry = ()\<rparr>,
         actuator = \<lparr>actuator_time_stamp = 2, motor_angles = (), motor_speeds = (),
                  actuator_hs_state = [1, 2, 3, 4], actuator_ls_state = [5, 6, 7, 8::nat]\<rparr>,
         sensor = \<lparr>sensor_time_stamp = 3, bms_basic_state = ()\<rparr>\<rparr>) =
     \<lparr>core = \<lparr>core_time_stamp = 1, system_state = (), motion_state = (), light_state = (),
                  motion_mode_state = (), rc_state = (), odometry = ()\<rparr>,
         actuator = \<lparr>actuator_time_stamp = 9, motor_angles = (), motor_speeds = (),
                  actuator_hs_state = [1, 2, 33, 4], actuator_ls_state = [5, 6, 7, 8::nat]\<rparr>,
         sensor = \<lparr>sensor_time_stamp = 3, bms_basic_state = ()\<rparr>\<rparr> \<and>
   same_except_time_stamp
     (merge 9 (ActuatorHSStateMessage 2 (33::nat))
       (merge 5 (ActuatorHSStateMessage 2 33)
        \<lparr>core = \<lparr>core_time_stamp = 1, system_state = (), motion_state = (), light_state = (),
                  motion_mode_state = (), rc_state = (), odometry = ()\<rparr>,
         actuator = \<lparr>actuator_time_stamp = 2, motor_angles = (), motor_speeds = (),
                  actuator_hs_state = [1, 2, 3, 4], actuator_ls_state = [5, 6, 7, 8::nat]\<rparr>,
         sensor = \<lparr>sensor_time_stamp = 3, bms_basic_state = ()\<rparr>\<rparr>))
     (merge 5 (ActuatorHSStateMessage 2 33)
        \<lparr>core = \<lparr>core_time_stamp = 1, system_state = (), motion_state = (), light_state = (),
                  motion_mode_state = (), rc_state = (), odometry = ()\<rparr>,
         actuator = \<lparr>actuator_time_stamp = 2, motor_angles = (), motor_speeds = (),
                  actuator_hs_state = [1, 2, 3, 4], actuator_ls_state = [5, 6, 7, 8::nat]\<rparr>,
         sensor = \<lparr>sensor_time_stamp = 3, bms_basic_state = ()\<rparr>\<rparr>)"
  using merge_idempotent [of 9 "ActuatorHSStateMessage 2 (33::nat)" 5
        "\<lparr>core = \<lparr>core_time_stamp = 1, system_state = (), motion_state = (), light_state = (),
                  motion_mode_state = (), rc_state = (), odometry = ()\<rparr>,
         actuator = \<lparr>actuator_time_stamp = 2, motor_angles = (), motor_speeds = (),
                  actuator_hs_state = [1, 2, 3, 4], actuator_ls_state = [5, 6, 7, 8::nat]\<rparr>,
         sensor = \<lparr>sensor_time_stamp = 3, bms_basic_state = ()\<rparr>\<rparr>"]
  by (simp add: actuator_slots_def numeral_eq_Suc)

end
